theory Spec2Isabelle
  imports Complex_Main "HOL-Library.Sublist"
begin

section \<open>JavaScript values used by the Ollama handler\<close>

text \<open>
  The handler of \<^verbatim>\<open>src/api/providers/ollama.ts\<close> is TypeScript; what it computes
  depends on a few rules of the language: which values count as false for \<^verbatim>\<open>||\<close> and
  \<^verbatim>\<open>if\<close>, what \<^verbatim>\<open>Number(s)\<close> returns for a string, and how a number is printed inside a
  template literal. This section writes those rules down.

  A number is an IEEE double. It is represented by its exact value, a rational; the two
  zeros are one value (nothing in the handler tells them apart). Strings are lists of
  characters; a character stands for a UTF-16 code unit below 256.
\<close>

datatype number = NaN | PosInfinity | NegInfinity | Finite rat

fun truthy :: "number \<Rightarrow> bool" where
  "truthy NaN = False"
| "truthy (Finite q) = (q \<noteq> 0)"
| "truthy PosInfinity = True"
| "truthy NegInfinity = True"

text \<open>\<^verbatim>\<open>x || d\<close> for a number, for an optional number and for an optional string.\<close>

definition number_or :: "number \<Rightarrow> number \<Rightarrow> number" where
  "number_or x d = (if truthy x then x else d)"

definition opt_number_or :: "number option \<Rightarrow> number \<Rightarrow> number" where
  "opt_number_or x d = (case x of None \<Rightarrow> d | Some v \<Rightarrow> number_or v d)"

definition string_or :: "string option \<Rightarrow> string \<Rightarrow> string" where
  "string_or x d = (case x of None \<Rightarrow> d | Some s \<Rightarrow> if s \<noteq> [] then s else d)"

text \<open>\<^verbatim>\<open>s.includes(p)\<close>: \<open>p\<close> occurs in \<open>s\<close> as a contiguous run.\<close>

definition String_includes :: "string \<Rightarrow> string \<Rightarrow> bool" where
  "String_includes s p = sublist p s"

subsection \<open>Rounding a real value to a double\<close>

fun digit_count :: "nat \<Rightarrow> nat \<Rightarrow> nat" where
  "digit_count b n = (if n = 0 \<or> b < 2 then 0 else Suc (digit_count b (n div b)))"

declare digit_count.simps [simp del]

definition pow :: "nat \<Rightarrow> int \<Rightarrow> rat" where
  "pow b k = (if 0 \<le> k then of_nat b ^ nat k else 1 / of_nat b ^ nat (- k))"

text \<open>\<open>floor_log b x\<close> is the integer \<open>e\<close> with \<open>b ^ e \<le> x < b ^ (e + 1)\<close>, for \<open>0 < x\<close>.\<close>

definition floor_log :: "nat \<Rightarrow> rat \<Rightarrow> int" where
  "floor_log b x =
     (if 1 \<le> x then int (digit_count b (nat \<lfloor>x\<rfloor>)) - 1
      else (let j = int (digit_count b (nat \<lfloor>1 / x\<rfloor>)) - 1
            in if x * pow b j = 1 then - j else - j - 1))"

definition round_half_even :: "rat \<Rightarrow> int" where
  "round_half_even q =
     (let f = \<lfloor>q\<rfloor>; d = q - of_int f
      in if d < 1 / 2 then f else if 1 / 2 < d then f + 1 else if even f then f else f + 1)"

text \<open>
  The double nearest to \<open>q\<close>, ties to the even significand: 53 significant bits, the
  least exponent \<open>- 1022\<close> (below it the spacing stays \<open>2 ^ - 1074\<close>), and an infinity
  once the rounded value reaches \<open>2 ^ 1024\<close>.
\<close>

definition round_double :: "rat \<Rightarrow> number" where
  "round_double q =
     (if q = 0 then Finite 0
      else (let m = \<bar>q\<bar>;
                e = max (floor_log 2 m) (- 1022);
                ulp = pow 2 (e - 52);
                r = of_int (round_half_even (m / ulp)) * ulp
            in if pow 2 1024 \<le> r then (if 0 < q then PosInfinity else NegInfinity)
               else Finite (if 0 < q then r else - r)))"

text \<open>\<^verbatim>\<open>x / d\<close> for a finite non-zero divisor \<open>d\<close>.\<close>

definition divide :: "number \<Rightarrow> rat \<Rightarrow> number" where
  "divide v d = (case v of Finite q \<Rightarrow> round_double (q / d) | w \<Rightarrow> w)"

subsection \<open>\<^verbatim>\<open>Number(s)\<close>: a string read as a numeric literal\<close>

definition is_white :: "char \<Rightarrow> bool" where
  "is_white c = (of_char c \<in> {9, 10, 11, 12, 13, 32, 160 :: nat})"

definition trim :: "string \<Rightarrow> string" where
  "trim s = rev (dropWhile is_white (rev (dropWhile is_white s)))"

definition digit_of :: "char \<Rightarrow> nat option" where
  "digit_of c =
     (let n = (of_char c :: nat)
      in if 48 \<le> n \<and> n \<le> 57 then Some (n - 48)
         else if 97 \<le> n \<and> n \<le> 102 then Some (n - 87)
         else if 65 \<le> n \<and> n \<le> 70 then Some (n - 55)
         else None)"

definition is_digit :: "nat \<Rightarrow> char \<Rightarrow> bool" where
  "is_digit b c = (case digit_of c of None \<Rightarrow> False | Some d \<Rightarrow> d < b)"

definition digits_value :: "nat \<Rightarrow> string \<Rightarrow> nat" where
  "digits_value b s =
     foldl (\<lambda>acc c. acc * b + (case digit_of c of None \<Rightarrow> 0 | Some d \<Rightarrow> d)) 0 s"

text \<open>The digits after \<^verbatim>\<open>0x\<close>, \<^verbatim>\<open>0o\<close> or \<^verbatim>\<open>0b\<close>.\<close>

definition radix_literal :: "nat \<Rightarrow> string \<Rightarrow> number" where
  "radix_literal b s =
     (if s \<noteq> [] \<and> list_all (is_digit b) s then round_double (of_nat (digits_value b s))
      else NaN)"

text \<open>What follows the significand: nothing, or \<^verbatim>\<open>e\<close>, an optional sign and digits.\<close>

definition exponent_part :: "string \<Rightarrow> int option" where
  "exponent_part s =
     (case s of
        [] \<Rightarrow> Some 0
      | c # r \<Rightarrow>
          if c = CHR ''e'' \<or> c = CHR ''E'' then
            (let (neg, ds) = (case r of
                                [] \<Rightarrow> (False, r)
                              | d # r' \<Rightarrow> if d = CHR ''-'' then (True, r')
                                          else if d = CHR ''+'' then (False, r')
                                          else (False, r))
             in if ds \<noteq> [] \<and> list_all (is_digit 10) ds
                then Some (if neg then - int (digits_value 10 ds) else int (digits_value 10 ds))
                else None)
          else None)"

definition unsigned_decimal :: "string \<Rightarrow> rat option" where
  "unsigned_decimal s =
     (let ip = takeWhile (is_digit 10) s;
          r1 = dropWhile (is_digit 10) s;
          (fp, r2) = (case r1 of
                        [] \<Rightarrow> ([], r1)
                      | c # r \<Rightarrow> if c = CHR ''.''
                                 then (takeWhile (is_digit 10) r, dropWhile (is_digit 10) r)
                                 else ([], r1))
      in if ip = [] \<and> fp = [] then None
         else (case exponent_part r2 of
                 None \<Rightarrow> None
               | Some e \<Rightarrow>
                   Some ((of_nat (digits_value 10 ip)
                          + of_nat (digits_value 10 fp) * pow 10 (- int (length fp)))
                         * pow 10 e)))"

definition decimal_literal :: "string \<Rightarrow> number" where
  "decimal_literal s =
     (let (neg, u) = (case s of
                        [] \<Rightarrow> (False, s)
                      | c # r \<Rightarrow> if c = CHR ''-'' then (True, r)
                                 else if c = CHR ''+'' then (False, r)
                                 else (False, s))
      in if u = ''Infinity'' then (if neg then NegInfinity else PosInfinity)
         else (case unsigned_decimal u of
                 None \<Rightarrow> NaN
               | Some q \<Rightarrow> round_double (if neg then - q else q)))"

definition StringToNumber :: "string \<Rightarrow> number" where
  "StringToNumber str =
     (let s = trim str
      in if s = [] then Finite 0
         else if take 2 s \<in> {''0x'', ''0X''} then radix_literal 16 (drop 2 s)
         else if take 2 s \<in> {''0o'', ''0O''} then radix_literal 8 (drop 2 s)
         else if take 2 s \<in> {''0b'', ''0B''} then radix_literal 2 (drop 2 s)
         else decimal_literal s)"

text \<open>\<^verbatim>\<open>Number(x)\<close> for \<^verbatim>\<open>x: string | undefined\<close>; \<^verbatim>\<open>Number(undefined)\<close> is \<^verbatim>\<open>NaN\<close>.\<close>

definition Number :: "string option \<Rightarrow> number" where
  "Number x = (case x of None \<Rightarrow> NaN | Some s \<Rightarrow> StringToNumber s)"

subsection \<open>A number printed in a template literal\<close>

fun decimal :: "nat \<Rightarrow> string" where
  "decimal n =
     (if n < 10 then [''0123456789'' ! n] else decimal (n div 10) @ [''0123456789'' ! (n mod 10)])"

declare decimal.simps [simp del]

text \<open>
  The shortest digit string that reads back as the double \<open>x\<close> (\<open>0 < x\<close>): for
  \<open>k = 1, 2, \<dots>\<close> digits, the two \<open>k\<close>-digit decimals around \<open>x\<close> are tried, the nearer
  one first. The result is the digits as a number and the position \<open>n\<close> of the decimal
  point, so that the value printed is \<open>digits * 10 ^ (n - k)\<close>. Seventeen digits always
  suffice for a double: with the fuel used up, at the seventeenth digit, the nearer of the
  two decimals is taken.
\<close>

fun shortest :: "nat \<Rightarrow> rat \<Rightarrow> nat \<Rightarrow> nat \<times> int" where
  "shortest 0 x k =
     (let n = floor_log 10 x + 1;
          unit = pow 10 (n - int k);
          lo = nat \<lfloor>x / unit\<rfloor>;
          hi = lo + 1
      in if x - of_nat lo * unit \<le> of_nat hi * unit - x then (lo, n)
         else if hi = 10 ^ k then (10 ^ (k - 1), n + 1) else (hi, n))"
| "shortest (Suc fuel) x k =
     (let n = floor_log 10 x + 1;
          unit = pow 10 (n - int k);
          lo = nat \<lfloor>x / unit\<rfloor>;
          hi = lo + 1;
          ok_lo = (round_double (of_nat lo * unit) = Finite x);
          ok_hi = (round_double (of_nat hi * unit) = Finite x);
          use_lo = (ok_lo \<and> (x - of_nat lo * unit \<le> of_nat hi * unit - x \<or> \<not> ok_hi))
      in if use_lo then (lo, n)
         else if ok_hi then (if hi = 10 ^ k then (10 ^ (k - 1), n + 1) else (hi, n))
         else shortest fuel x (k + 1))"

definition positive_text :: "rat \<Rightarrow> string" where
  "positive_text x =
     (let (s, n) = shortest 16 x 1;
          ds = decimal s;
          k = int (length ds)
      in if k \<le> n \<and> n \<le> 21 then ds @ replicate (nat (n - k)) CHR ''0''
         else if 0 < n \<and> n \<le> 21 then take (nat n) ds @ ''.'' @ drop (nat n) ds
         else if - 6 < n \<and> n \<le> 0 then ''0.'' @ replicate (nat (- n)) CHR ''0'' @ ds
         else (let e = n - 1;
                   ex = (if e < 0 then ''-'' else ''+'') @ decimal (nat \<bar>e\<bar>)
               in if k = 1 then ds @ ''e'' @ ex else hd ds # ''.'' @ tl ds @ ''e'' @ ex))"

definition ToString :: "number \<Rightarrow> string" where
  "ToString v =
     (case v of
        NaN \<Rightarrow> ''NaN''
      | PosInfinity \<Rightarrow> ''Infinity''
      | NegInfinity \<Rightarrow> ''-Infinity''
      | Finite q \<Rightarrow>
          (case round_double q of
             Finite x \<Rightarrow> if x = 0 then ''0''
                         else if x < 0 then ''-'' @ positive_text (- x) else positive_text x
           | w \<Rightarrow> (if 0 < q then ''Infinity'' else ''-Infinity'')))"

section \<open>Data model\<close>

text \<open>
  \<^verbatim>\<open>OllamaHandlerOptions\<close> (lines 9 to 15). Every field is optional; \<open>None\<close> is
  \<^verbatim>\<open>undefined\<close>.
\<close>

record OllamaHandlerOptions =
  ollamaBaseUrl :: "string option"
  ollamaApiKey :: "string option"
  ollamaModelId :: "string option"
  ollamaApiOptionsCtxNum :: "string option"
  requestTimeoutMs :: "number option"

text \<open>
  \<^verbatim>\<open>ModelInfo\<close> and the table \<^verbatim>\<open>openAiModelInfoSaneDefaults\<close> are declared in
  \<^verbatim>\<open>shared/api\<close>, a module that this theory does not cover. The handler reads and writes
  one field, \<^verbatim>\<open>contextWindow\<close>; the other fields are the record's extension, and the table
  is a parameter of \<open>getModel\<close>.
\<close>

record ModelInfo =
  contextWindow :: number

record 'z Model =
  model_id :: string
  info :: "'z ModelInfo_scheme"

text \<open>
  The values a field of a JSON chunk can hold. A message of the provider has a role and a
  content; the declared type of the content is \<^verbatim>\<open>string\<close>, the handler checks it at run
  time, so the model lets it be any value.
\<close>

datatype jsvalue = Undefined | Null | Bool bool | Num number | Str string | Object

record Message =
  role :: string
  content :: jsvalue

text \<open>
  A chunk of the response stream (\<^verbatim>\<open>ChatResponse\<close> of the client library), with the three
  fields the handler reads. \<open>message = None\<close> is a chunk without a \<^verbatim>\<open>message\<close> property;
  a token count that is \<open>None\<close> is \<^verbatim>\<open>undefined\<close>.
\<close>

record ChatResponse =
  message :: "Message option"
  eval_count :: "number option"
  prompt_eval_count :: "number option"

text \<open>
  The two shapes the generator yields: \<^verbatim>\<open>{type: "text", text}\<close> and
  \<^verbatim>\<open>{type: "usage", inputTokens, outputTokens}\<close>, named as in the specification; the
  arguments of \<open>UsageUpdate\<close> are the input tokens and the output tokens, in this order.
\<close>

datatype ApiStreamChunk =
  is_text: TextDelta string
| is_usage: UsageUpdate number number

text \<open>
  A thrown value, with the three properties the handler reads from it: an object whose
  message is a string or undefined and whose status properties are numbers or undefined.
  \<^verbatim>\<open>new Error(m)\<close> has the message \<open>m\<close> and neither status property.
\<close>

record js_error =
  error_message :: "string option"
  status :: "number option"
  statusCode :: "number option"

definition new_Error :: "string \<Rightarrow> js_error" where
  "new_Error m = \<lparr>error_message = Some m, status = None, statusCode = None\<rparr>"

text \<open>How an iteration ends: it is exhausted, or it throws.\<close>

datatype completion = Done | Threw js_error

text \<open>
  The chunk stream of the provider: the chunks it delivers, then how it ends. The promise
  returned by \<^verbatim>\<open>client.chat\<close>, as the race of line 70 finds it: not settled when the timer
  fires, rejected, or fulfilled with a stream.
\<close>

type_synonym chunk_stream = "ChatResponse list \<times> completion"

datatype apiPromise = Unsettled | Rejected js_error | Fulfilled chunk_stream

text \<open>A call of \<^verbatim>\<open>console.error\<close>: the text, and the error object passed along, if any.\<close>

datatype console_entry = console_error string "js_error option"

record clientOptions =
  host :: string
  headers :: "(string \<times> string) list option"

record ChatRequest =
  model :: string
  messages :: "Message list"
  stream :: bool
  num_ctx :: number

text \<open>
  The handler object: its options and the cached client. The client class, the message
  converter and the network are outside the file; they are the three fields of the
  environment. \<open>'c\<close> is the type of client handles, \<open>'m\<close> of the caller's messages.
\<close>

record 'c OllamaHandler =
  options :: OllamaHandlerOptions
  client :: "'c option"

record ('c, 'm) environment =
  new_Ollama :: "clientOptions \<Rightarrow> js_error + 'c"
  convertToOllamaMessages :: "'m list \<Rightarrow> Message list"
  chat :: "'c \<Rightarrow> ChatRequest \<Rightarrow> apiPromise"

text \<open>What one run of the generator shows: the events, the console and the end.\<close>

record run =
  events :: "ApiStreamChunk list"
  console :: "console_entry list"
  ending :: completion

section \<open>The handler\<close>

subsection \<open>\<^verbatim>\<open>ensureClient\<close> (lines 25 to 45)\<close>

definition make_clientOptions :: "OllamaHandlerOptions \<Rightarrow> clientOptions" where
  "make_clientOptions opts =
     \<lparr>host = string_or (ollamaBaseUrl opts) ''http://localhost:11434'',
      headers = (case ollamaApiKey opts of
                   None \<Rightarrow> None
                 | Some k \<Rightarrow> if k \<noteq> [] then Some [(''Authorization'', ''Bearer '' @ k)]
                            else None)\<rparr>"

definition ensureClient ::
  "('c, 'm) environment \<Rightarrow> 'c OllamaHandler \<Rightarrow> js_error + ('c \<times> 'c OllamaHandler)" where
  "ensureClient env h =
     (case client h of
        Some c \<Rightarrow> Inr (c, h)
      | None \<Rightarrow>
          (case new_Ollama env (make_clientOptions (options h)) of
             Inl error \<Rightarrow>
               Inl (new_Error (''Error creating Ollama client: ''
                               @ (case error_message error of
                                    None \<Rightarrow> ''undefined'' | Some m \<Rightarrow> m)))
           | Inr c \<Rightarrow> Inr (c, h\<lparr>client := Some c\<rparr>)))"

subsection \<open>\<^verbatim>\<open>getModel\<close> (lines 110 to 117)\<close>

definition getModel :: "'z ModelInfo_scheme \<Rightarrow> OllamaHandlerOptions \<Rightarrow> 'z Model" where
  "getModel openAiModelInfoSaneDefaults opts =
     \<lparr>model_id = string_or (ollamaModelId opts) [],
      info = (if (case ollamaApiOptionsCtxNum opts of None \<Rightarrow> False | Some s \<Rightarrow> s \<noteq> [])
              then openAiModelInfoSaneDefaults
                     \<lparr>contextWindow :=
                        number_or (Number (ollamaApiOptionsCtxNum opts)) (Finite 32768)\<rparr>
              else openAiModelInfoSaneDefaults)\<rparr>"

subsection \<open>The request and the race against the timer (lines 54 to 70)\<close>

definition timeoutMs :: "OllamaHandlerOptions \<Rightarrow> number" where
  "timeoutMs opts = opt_number_or (requestTimeoutMs opts) (Finite 30000)"

text \<open>The message of lines 56 and 98, for a value of \<^verbatim>\<open>timeoutMs\<close>.\<close>

definition timeout_message :: "number \<Rightarrow> string" where
  "timeout_message t =
     ''Ollama request timed out after '' @ ToString (divide t 1000) @ '' seconds''"

definition chat_request ::
  "'z ModelInfo_scheme \<Rightarrow> OllamaHandlerOptions \<Rightarrow> Message list \<Rightarrow> ChatRequest" where
  "chat_request openAiModelInfoSaneDefaults opts ollamaMessages =
     \<lparr>model = model_id (getModel openAiModelInfoSaneDefaults opts),
      messages = ollamaMessages,
      stream = True,
      num_ctx = number_or (Number (ollamaApiOptionsCtxNum opts)) (Finite 32768)\<rparr>"

text \<open>
  \<^verbatim>\<open>await Promise.race([apiPromise, timeoutPromise])\<close>: the timer rejects with the timeout
  message when the request has not settled by then; otherwise the request decides.
\<close>

definition race :: "OllamaHandlerOptions \<Rightarrow> apiPromise \<Rightarrow> js_error + chunk_stream" where
  "race opts apiPromise =
     (case apiPromise of
        Unsettled \<Rightarrow> Inl (new_Error (timeout_message (timeoutMs opts)))
      | Rejected error \<Rightarrow> Inl error
      | Fulfilled s \<Rightarrow> Inr s)"

subsection \<open>Translating the stream (lines 72 to 93)\<close>

text \<open>
  Reading \<^verbatim>\<open>chunk.message.content\<close> of a chunk without a message throws a
  \<^verbatim>\<open>TypeError\<close>; the text is the engine's (here V8's) and no result depends on it.
\<close>

definition content_TypeError :: js_error where
  "content_TypeError =
     new_Error (''Cannot read properties of undefined (reading '' @ [CHR 0x27] @ ''content''
                @ [CHR 0x27] @ '')'')"

text \<open>Lines 74 to 79 and 82 to 88, for a message and for a chunk.\<close>

definition text_part :: "Message \<Rightarrow> ApiStreamChunk list" where
  "text_part m = (case content m of Str s \<Rightarrow> [TextDelta s] | _ \<Rightarrow> [])"

definition usage_part :: "ChatResponse \<Rightarrow> ApiStreamChunk list" where
  "usage_part chunk =
     (if eval_count chunk \<noteq> None \<or> prompt_eval_count chunk \<noteq> None
      then [UsageUpdate (opt_number_or (prompt_eval_count chunk) (Finite 0))
                        (opt_number_or (eval_count chunk) (Finite 0))]
      else [])"

text \<open>The body of the loop: what it yields for one chunk, or what it throws.\<close>

definition loop_body :: "ChatResponse \<Rightarrow> js_error + ApiStreamChunk list" where
  "loop_body chunk =
     (case message chunk of
        None \<Rightarrow> Inl content_TypeError
      | Some m \<Rightarrow> Inr (text_part m @ usage_part chunk))"

text \<open>
  \<^verbatim>\<open>for await (const chunk of stream)\<close>: the events yielded, and how the loop is left.
\<close>

fun for_await :: "ChatResponse list \<Rightarrow> completion \<Rightarrow> ApiStreamChunk list \<times> completion" where
  "for_await [] fin = ([], fin)"
| "for_await (chunk # rest) fin =
     (case loop_body chunk of
        Inl error \<Rightarrow> ([], Threw error)
      | Inr evs \<Rightarrow> (case for_await rest fin of (evs', r) \<Rightarrow> (evs @ evs', r)))"

text \<open>The error thrown at line 92 for an error caught at line 90.\<close>

definition StreamProcessingError :: "js_error \<Rightarrow> js_error" where
  "StreamProcessingError streamError =
     new_Error (''Ollama stream processing error: ''
                @ string_or (error_message streamError) ''Unknown error'')"

definition translate :: "chunk_stream \<Rightarrow> run" where
  "translate s =
     (case for_await (fst s) (snd s) of
        (evs, Done) \<Rightarrow> \<lparr>events = evs, console = [], ending = Done\<rparr>
      | (evs, Threw streamError) \<Rightarrow>
          \<lparr>events = evs,
           console = [console_error ''Error processing Ollama stream:'' (Some streamError)],
           ending = Threw (StreamProcessingError streamError)\<rparr>)"

subsection \<open>Classifying an error (lines 94 to 107)\<close>

definition indicates_timeout :: "js_error \<Rightarrow> bool" where
  "indicates_timeout error =
     (case error_message error of
        None \<Rightarrow> False
      | Some m \<Rightarrow> m \<noteq> [] \<and> String_includes m ''timed out'')"

definition TimeoutError :: "OllamaHandlerOptions \<Rightarrow> js_error" where
  "TimeoutError opts = new_Error (timeout_message (timeoutMs opts))"

definition api_error_line :: "js_error \<Rightarrow> string" where
  "api_error_line error =
     (let statusCode = (case status error of
                          None \<Rightarrow> statusCode error
                        | Some v \<Rightarrow> if truthy v then Some v else statusCode error);
          errorMessage = string_or (error_message error) ''Unknown error''
      in ''Ollama API error (''
         @ (case statusCode of
              None \<Rightarrow> ''unknown''
            | Some v \<Rightarrow> if truthy v then ToString v else ''unknown'')
         @ ''): '' @ errorMessage)"

text \<open>The outer \<^verbatim>\<open>catch\<close>: what it writes to the console and what it throws.\<close>

definition classify :: "OllamaHandlerOptions \<Rightarrow> js_error \<Rightarrow> console_entry list \<times> js_error" where
  "classify opts error =
     (if indicates_timeout error then ([], TimeoutError opts)
      else ([console_error (api_error_line error) None], error))"

subsection \<open>\<^verbatim>\<open>createMessage\<close> (lines 48 to 108)\<close>

text \<open>
  One run of the generator body, without the retry decorator of line 47 (it is outside
  the file). An error of \<open>ensureClient\<close> is thrown before the \<^verbatim>\<open>try\<close> and is not
  classified; every error thrown inside goes through the outer \<^verbatim>\<open>catch\<close>.
\<close>

definition through_catch :: "OllamaHandlerOptions \<Rightarrow> run \<Rightarrow> run" where
  "through_catch opts r =
     (case ending r of
        Done \<Rightarrow> r
      | Threw error \<Rightarrow>
          (case classify opts error of
             (lines, error') \<Rightarrow> r\<lparr>console := console r @ lines, ending := Threw error'\<rparr>))"

definition createMessage ::
  "('c, 'm) environment \<Rightarrow> 'z ModelInfo_scheme \<Rightarrow> 'c OllamaHandler \<Rightarrow> string \<Rightarrow> 'm list
     \<Rightarrow> run \<times> 'c OllamaHandler" where
  "createMessage env openAiModelInfoSaneDefaults h systemPrompt msgs =
     (case ensureClient env h of
        Inl error \<Rightarrow> (\<lparr>events = [], console = [], ending = Threw error\<rparr>, h)
      | Inr (c, h') \<Rightarrow>
          (let ollamaMessages =
                 \<lparr>role = ''system'', content = Str systemPrompt\<rparr>
                 # convertToOllamaMessages env msgs;
               apiPromise =
                 chat env c (chat_request openAiModelInfoSaneDefaults (options h) ollamaMessages)
           in (through_catch (options h)
                 (case race (options h) apiPromise of
                    Inl error \<Rightarrow> \<lparr>events = [], console = [], ending = Threw error\<rparr>
                  | Inr s \<Rightarrow> translate s),
               h')))"

section \<open>Notions used to state the properties\<close>

text \<open>What the loop yields for one chunk: nothing when its body throws.\<close>

definition emitted :: "ChatResponse \<Rightarrow> ApiStreamChunk list" where
  "emitted chunk = (case loop_body chunk of Inl error \<Rightarrow> [] | Inr evs \<Rightarrow> evs)"

definition has_message :: "ChatResponse \<Rightarrow> bool" where
  "has_message chunk = (message chunk \<noteq> None)"

text \<open>
  The specification's condition for a text event, in its words: the content field of the
  chunk is a non-empty string value.
\<close>

definition nonempty_string_content :: "ChatResponse \<Rightarrow> bool" where
  "nonempty_string_content chunk =
     (case message chunk of
        None \<Rightarrow> False
      | Some m \<Rightarrow> (case content m of Str s \<Rightarrow> s \<noteq> [] | _ \<Rightarrow> False))"

text \<open>
  The options with every falsy value replaced by an absent one: an empty string, and a
  timeout that is \<open>0\<close> or \<^verbatim>\<open>NaN\<close>.
\<close>

definition absent_if_empty :: "string option \<Rightarrow> string option" where
  "absent_if_empty x = (case x of None \<Rightarrow> None | Some s \<Rightarrow> if s = [] then None else Some s)"

definition absent_if_falsy :: "OllamaHandlerOptions \<Rightarrow> OllamaHandlerOptions" where
  "absent_if_falsy opts =
     \<lparr>ollamaBaseUrl = absent_if_empty (ollamaBaseUrl opts),
      ollamaApiKey = absent_if_empty (ollamaApiKey opts),
      ollamaModelId = absent_if_empty (ollamaModelId opts),
      ollamaApiOptionsCtxNum = absent_if_empty (ollamaApiOptionsCtxNum opts),
      requestTimeoutMs = (case requestTimeoutMs opts of
                            None \<Rightarrow> None
                          | Some t \<Rightarrow> if truthy t then Some t else None)\<rparr>"

subsection \<open>Concrete inputs\<close>

text \<open>The options with nothing configured, and the handler as its constructor leaves it.\<close>

definition unset :: OllamaHandlerOptions where
  "unset = \<lparr>ollamaBaseUrl = None, ollamaApiKey = None, ollamaModelId = None,
            ollamaApiOptionsCtxNum = None, requestTimeoutMs = None\<rparr>"

definition new_OllamaHandler :: "OllamaHandlerOptions \<Rightarrow> 'c OllamaHandler" where
  "new_OllamaHandler opts = \<lparr>options = opts, client = None\<rparr>"

text \<open>
  A chunk that carries a message, and one that carries none. The chunks of the
  specification's scenario A: the third has token counts and a message without content.
\<close>

definition chunk_with :: "jsvalue \<Rightarrow> number option \<Rightarrow> number option \<Rightarrow> ChatResponse" where
  "chunk_with c e p =
     \<lparr>message = Some \<lparr>role = ''assistant'', content = c\<rparr>, eval_count = e,
      prompt_eval_count = p\<rparr>"

definition bare_chunk :: "number option \<Rightarrow> number option \<Rightarrow> ChatResponse" where
  "bare_chunk e p = \<lparr>message = None, eval_count = e, prompt_eval_count = p\<rparr>"

definition scenario_A :: "ChatResponse list" where
  "scenario_A =
     [chunk_with (Str ''Hello'') None None,
      chunk_with (Str '' world'') None None,
      chunk_with Undefined (Some (Finite 5)) (Some (Finite 12))]"

text \<open>
  An environment whose client class always constructs, whose converter returns nothing
  and whose request always ends the way \<open>p\<close> says.
\<close>

definition scripted :: "apiPromise \<Rightarrow> (unit, unit) environment" where
  "scripted p =
     \<lparr>new_Ollama = (\<lambda>_. Inr ()), convertToOllamaMessages = (\<lambda>_. []), chat = (\<lambda>_ _. p)\<rparr>"

text \<open>An environment whose client class fails to construct, throwing \<open>e\<close>.\<close>

definition refusing :: "js_error \<Rightarrow> (unit, unit) environment" where
  "refusing e =
     \<lparr>new_Ollama = (\<lambda>_. Inl e), convertToOllamaMessages = (\<lambda>_. []),
      chat = (\<lambda>_ _. Unsettled)\<rparr>"

text \<open>A table of default model metadata whose context window is not 32768.\<close>

definition wide_defaults :: ModelInfo where
  "wide_defaults = \<lparr>contextWindow = Finite 128000\<rparr>"


section \<open>Evaluating the language rules\<close>

text \<open>
  A value that is a multiple of its own spacing and below \<open>2 ^ 1024\<close> is a double, and
  rounding leaves it alone. The lemmas after it evaluate the rules of the first section at
  the numbers and strings that occur below.
\<close>

lemma round_half_even_of_int: "round_half_even (of_int z) = z"
  by (simp add: round_half_even_def)

lemma pow_pos: "0 < b \<Longrightarrow> 0 < pow b k"
  by (simp add: pow_def)

lemma round_double_exact:
  assumes "0 < q" and "max (floor_log 2 q) (- 1022) = e"
    and "q / pow 2 (e - 52) = of_int z" and "q < pow 2 1024"
  shows "round_double q = Finite q"
proof -
  have u: "0 < pow 2 (e - 52)" by (simp add: pow_pos)
  have "of_int z * pow 2 (e - 52) = q"
    using assms(3) u by (simp add: field_simps)
  then show ?thesis
    using assms(1,2,4) by (simp add: round_double_def Let_def assms(3) round_half_even_of_int)
qed

lemma round_double_30: "round_double 30 = Finite 30"
proof (rule round_double_exact)
  show "max (floor_log 2 30) (- 1022) = 4"
    by (simp add: floor_log_def digit_count.simps)
  show "(30::rat) / pow 2 (4 - 52) = of_int (30 * 2 ^ 48)"
    by (simp add: pow_def)
  show "(30::rat) < pow 2 1024"
    by (simp add: pow_def)
qed simp

lemma round_double_8192: "round_double 8192 = Finite 8192"
proof (rule round_double_exact)
  show "max (floor_log 2 8192) (- 1022) = 13"
    by (simp add: floor_log_def digit_count.simps)
  show "(8192::rat) / pow 2 (13 - 52) = of_int (8192 * 2 ^ 39)"
    by (simp add: pow_def)
  show "(8192::rat) < pow 2 1024"
    by (simp add: pow_def)
qed simp

lemma round_double_5: "round_double 5 = Finite 5"
proof (rule round_double_exact)
  show "max (floor_log 2 5) (- 1022) = 2"
    by (simp add: floor_log_def digit_count.simps)
  show "(5::rat) / pow 2 (2 - 52) = of_int (5 * 2 ^ 50)"
    by (simp add: pow_def)
  show "(5::rat) < pow 2 1024"
    by (simp add: pow_def)
qed simp

lemma round_double_500: "round_double 500 = Finite 500"
proof (rule round_double_exact)
  show "max (floor_log 2 500) (- 1022) = 8"
    by (simp add: floor_log_def digit_count.simps)
  show "(500::rat) / pow 2 (8 - 52) = of_int (500 * 2 ^ 44)"
    by (simp add: pow_def)
  show "(500::rat) < pow 2 1024"
    by (simp add: pow_def)
qed simp

lemma digit_of_simps:
  "digit_of CHR ''8'' = Some 8" "digit_of CHR ''1'' = Some 1" "digit_of CHR ''9'' = Some 9"
  "digit_of CHR ''2'' = Some 2" "digit_of CHR ''a'' = Some 10"
  by (simp_all add: digit_of_def)

lemma trim_8192: "trim ''8192'' = ''8192''"
  by (simp add: trim_def is_white_def)

lemma unsigned_8192: "unsigned_decimal ''8192'' = Some 8192"
  by (simp add: unsigned_decimal_def exponent_part_def is_digit_def digit_of_simps
      digits_value_def pow_def)

lemma Number_8192: "Number (Some ''8192'') = Finite 8192"
  by (simp add: Number_def StringToNumber_def trim_8192 decimal_literal_def unsigned_8192
      round_double_8192)

lemma Number_abc: "Number (Some ''abc'') = NaN"
  by (simp add: Number_def StringToNumber_def trim_def is_white_def decimal_literal_def
      unsigned_decimal_def is_digit_def digit_of_simps)

lemma Number_empty: "Number (Some []) = Finite 0"
  by (simp add: Number_def StringToNumber_def trim_def)

lemma Number_blank: "Number (Some '' '') = Finite 0"
  by (simp add: Number_def StringToNumber_def trim_def is_white_def)

lemma Number_None: "Number None = NaN"
  by (simp add: Number_def)

lemma shortest_30: "shortest 16 30 (Suc 0) = (3, 2)"
proof -
  have n: "floor_log 10 30 = 1"
    by (simp add: floor_log_def digit_count.simps)
  have "shortest (Suc fuel) 30 (Suc 0) = (3, 2)" for fuel
    by (simp add: n pow_def round_double_30 Let_def)
  from this [of 15] show ?thesis
    by simp
qed

lemma decimal_3: "decimal 3 = ''3''"
  by (simp add: decimal.simps)

lemma positive_text_30: "positive_text 30 = ''30''"
  by (simp add: positive_text_def shortest_30 decimal_3)

lemma ToString_30: "ToString (Finite 30) = ''30''"
  by (simp add: ToString_def round_double_30 positive_text_30)

lemma ToString_5: "ToString (Finite 5) = ''5''"
proof -
  have n: "floor_log 10 5 = 0"
    by (simp add: floor_log_def digit_count.simps)
  have "shortest (Suc fuel) 5 (Suc 0) = (5, 1)" for fuel
    by (simp add: n pow_def round_double_5 Let_def)
  from this [of 15] have s: "shortest 16 5 (Suc 0) = (5, 1)"
    by simp
  have d: "decimal 5 = ''5''"
    by (simp add: decimal.simps)
  have "positive_text 5 = ''5''"
    by (simp add: positive_text_def s d)
  then show ?thesis
    by (simp add: ToString_def round_double_5)
qed

lemma ToString_500: "ToString (Finite 500) = ''500''"
proof -
  have n: "floor_log 10 500 = 2"
    by (simp add: floor_log_def digit_count.simps)
  have "shortest (Suc fuel) 500 (Suc 0) = (5, 3)" for fuel
    by (simp add: n pow_def round_double_500 Let_def)
  from this [of 15] have s: "shortest 16 500 (Suc 0) = (5, 3)"
    by simp
  have d: "decimal 5 = ''5''"
    by (simp add: decimal.simps)
  have "positive_text 500 = ''500''"
    by (simp add: positive_text_def s d numeral_2_eq_2)
  then show ?thesis
    by (simp add: ToString_def round_double_500)
qed

lemma seconds_30000: "divide (Finite 30000) 1000 = Finite 30"
  by (simp add: divide_def round_double_30)

lemma timeout_message_30000:
  "timeout_message (Finite 30000) = ''Ollama request timed out after 30 seconds''"
  by (simp add: timeout_message_def seconds_30000 ToString_30)

lemma timeout_message_5000:
  "timeout_message (Finite 5000) = ''Ollama request timed out after 5 seconds''"
  by (simp add: timeout_message_def divide_def round_double_5 ToString_5)

lemma timeoutMs_cases:
  "timeoutMs opts =
     (case requestTimeoutMs opts of
        None \<Rightarrow> Finite 30000
      | Some t \<Rightarrow> if truthy t then t else Finite 30000)"
  by (simp add: timeoutMs_def opt_number_or_def number_or_def split: option.splits)

lemma round_double_1: "round_double 1 = Finite 1"
proof (rule round_double_exact)
  show "max (floor_log 2 1) (- 1022) = 0"
    by (simp add: floor_log_def digit_count.simps)
  show "(1::rat) / pow 2 (0 - 52) = of_int (2 ^ 52)"
    by (simp add: pow_def)
  show "(1::rat) < pow 2 1024"
    by (simp add: pow_def)
qed simp

lemma round_double_2: "round_double 2 = Finite 2"
proof (rule round_double_exact)
  show "max (floor_log 2 2) (- 1022) = 1"
    by (simp add: floor_log_def digit_count.simps)
  show "(2::rat) / pow 2 (1 - 52) = of_int (2 * 2 ^ 51)"
    by (simp add: pow_def)
  show "(2::rat) < pow 2 1024"
    by (simp add: pow_def)
qed simp

lemma floor_three_halves: "\<lfloor>3 / 2 :: rat\<rfloor> = 1"
  by (rule floor_unique) simp_all

lemma round_double_three_halves: "round_double (3 / 2) = Finite (3 / 2)"
proof (rule round_double_exact)
  show "max (floor_log 2 (3 / 2)) (- 1022) = 0"
    by (simp add: floor_log_def digit_count.simps floor_three_halves)
  show "(3 / 2 :: rat) / pow 2 (0 - 52) = of_int (3 * 2 ^ 51)"
    by (simp add: pow_def)
  show "(3 / 2 :: rat) < pow 2 1024"
    by (simp add: pow_def)
qed simp

lemma shortest_three_halves: "shortest 16 (3 / 2) (Suc 0) = (15, 1)"
proof -
  have n: "floor_log 10 (3 / 2) = 0"
    by (simp add: floor_log_def digit_count.simps floor_three_halves)
  have "shortest (Suc (Suc fuel)) (3 / 2) (Suc 0) = (15, 1)" for fuel
    by (simp add: n pow_def round_double_1 round_double_2 round_double_three_halves Let_def
        floor_three_halves)
  from this [of 14] show ?thesis
    by simp
qed

lemma decimal_15: "decimal 15 = ''15''"
  by (simp add: decimal.simps)

lemma ToString_three_halves: "ToString (Finite (3 / 2)) = ''1.5''"
proof -
  have "positive_text (3 / 2) = ''1.5''"
    by (simp add: positive_text_def shortest_three_halves decimal_15)
  then show ?thesis
    by (simp add: ToString_def round_double_three_halves)
qed

lemma timeout_message_1500:
  "timeout_message (Finite 1500) = ''Ollama request timed out after 1.5 seconds''"
  by (simp add: timeout_message_def divide_def round_double_three_halves
      ToString_three_halves)

section \<open>The loop and the two catch blocks\<close>

lemma for_await_all:
  "list_all has_message cs \<Longrightarrow> for_await cs fin = (concat (map emitted cs), fin)"
  by (induction cs) (auto simp: has_message_def loop_body_def emitted_def split: option.splits)

lemma for_await_stop:
  "list_all has_message pre \<Longrightarrow> message c = None \<Longrightarrow>
   for_await (pre @ c # post) fin = (concat (map emitted pre), Threw content_TypeError)"
  by (induction pre) (auto simp: has_message_def loop_body_def emitted_def split: option.splits)

lemma for_await_events:
  "fst (for_await cs fin) = concat (map emitted (takeWhile has_message cs))"
  by (induction cs)
     (auto simp: has_message_def loop_body_def emitted_def split: option.splits prod.splits)

lemma events_translate: "events (translate (cs, fin)) = fst (for_await cs fin)"
  by (simp add: translate_def split: prod.splits completion.splits)

lemma events_through_catch: "events (through_catch opts r) = events r"
  by (simp add: through_catch_def split: completion.splits prod.splits)

lemma createMessage_settled:
  "ensureClient env h = Inr (c, h') \<Longrightarrow>
   fst (createMessage env d h sp ms) =
     through_catch (options h)
       (case race (options h)
               (chat env c (chat_request d (options h)
                  (\<lparr>role = ''system'', content = Str sp\<rparr> # convertToOllamaMessages env ms))) of
          Inl error \<Rightarrow> \<lparr>events = [], console = [], ending = Threw error\<rparr>
        | Inr s \<Rightarrow> translate s)"
  by (simp add: createMessage_def Let_def)

lemma indicates_timeout_TimeoutError: "indicates_timeout (new_Error (timeout_message t))"
  by (simp add: indicates_timeout_def new_Error_def timeout_message_def String_includes_def
      sublist_Cons_right)

lemma not_timeout_TypeError: "\<not> indicates_timeout (StreamProcessingError content_TypeError)"
  by (simp add: indicates_timeout_def StreamProcessingError_def content_TypeError_def
      new_Error_def string_or_def String_includes_def sublist_Cons_right)

lemma ensureClient_scripted:
  "ensureClient (scripted p) (new_OllamaHandler opts) = Inr ((), \<lparr>options = opts, client = Some ()\<rparr>)"
  by (simp add: ensureClient_def scripted_def new_OllamaHandler_def)

lemma no_text_in_usage_part: "filter is_text (usage_part c) = []"
  by (simp add: usage_part_def)

lemma text_part_all_text: "filter is_text (text_part m) = text_part m"
  by (simp add: text_part_def split: jsvalue.splits)

lemma no_usage_in_text_part: "filter is_usage (text_part m) = []"
  by (simp add: text_part_def split: jsvalue.splits)

lemma usage_part_all_usage: "filter is_usage (usage_part c) = usage_part c"
  by (simp add: usage_part_def)

lemma emitted_with_message: "message c = Some m \<Longrightarrow> emitted c = text_part m @ usage_part c"
  by (simp add: emitted_def loop_body_def)

lemma emitted_without_message: "message c = None \<Longrightarrow> emitted c = []"
  by (simp add: emitted_def loop_body_def)

lemma emitted_order: "emitted c = filter is_text (emitted c) @ filter is_usage (emitted c)"
proof (cases "message c")
  case None
  then show ?thesis by (simp add: emitted_without_message)
next
  case (Some m)
  then show ?thesis
    by (simp add: emitted_with_message no_text_in_usage_part text_part_all_text
        no_usage_in_text_part usage_part_all_usage)
qed

lemma translate_all:
  "list_all has_message cs \<Longrightarrow>
   translate (cs, Done) = \<lparr>events = concat (map emitted cs), console = [], ending = Done\<rparr>"
  by (simp add: translate_def for_await_all)

lemma translate_raise:
  "list_all has_message cs \<Longrightarrow>
   translate (cs, Threw e)
   = \<lparr>events = concat (map emitted cs),
      console = [console_error ''Error processing Ollama stream:'' (Some e)],
      ending = Threw (StreamProcessingError e)\<rparr>"
  by (simp add: translate_def for_await_all)

lemma translate_stop:
  "list_all has_message pre \<Longrightarrow> message c = None \<Longrightarrow>
   translate (pre @ c # post, fin)
   = \<lparr>events = concat (map emitted pre),
      console = [console_error ''Error processing Ollama stream:'' (Some content_TypeError)],
      ending = Threw (StreamProcessingError content_TypeError)\<rparr>"
  by (simp add: translate_def for_await_stop)

lemma through_catch_other:
  "ending r = Threw e \<Longrightarrow> \<not> indicates_timeout e \<Longrightarrow>
   through_catch opts r = r\<lparr>console := console r @ [console_error (api_error_line e) None]\<rparr>"
  by (simp add: through_catch_def classify_def)

lemma through_catch_timeout:
  "ending r = Threw e \<Longrightarrow> indicates_timeout e \<Longrightarrow>
   through_catch opts r = r\<lparr>ending := Threw (TimeoutError opts)\<rparr>"
  by (simp add: through_catch_def classify_def)

lemma through_catch_Done: "ending r = Done \<Longrightarrow> through_catch opts r = r"
  by (simp add: through_catch_def)

lemma emitted_scenario_A:
  "concat (map emitted scenario_A)
   = [TextDelta ''Hello'', TextDelta '' world'', UsageUpdate (Finite 12) (Finite 5)]"
  by (simp add: scenario_A_def emitted_def loop_body_def chunk_with_def text_part_def
      usage_part_def opt_number_or_def number_or_def)

lemma scenario_A_has_message: "list_all has_message scenario_A"
  by (simp add: scenario_A_def has_message_def chunk_with_def)

lemma error_message_new_Error: "error_message (new_Error m) = Some m"
  by (simp add: new_Error_def)

lemma wrapped_indicates_timeout:
  "indicates_timeout (StreamProcessingError e)
   \<longleftrightarrow> (\<exists>m. error_message e = Some m \<and> String_includes m ''timed out'')"
proof (cases "error_message e")
  case None
  then show ?thesis
    by (simp add: indicates_timeout_def StreamProcessingError_def new_Error_def string_or_def
        String_includes_def sublist_Cons_right)
next
  case (Some m)
  have "sublist ''timed out'' (''Ollama stream processing error: '' @ m)
        \<longleftrightarrow> sublist ''timed out'' m"
    by (simp add: sublist_Cons_right)
  moreover have "\<not> sublist ''timed out'' ''Ollama stream processing error: Unknown error''"
    by (simp add: sublist_Cons_right)
  moreover have "\<not> sublist ''timed out'' []"
    by simp
  ultimately show ?thesis
    using Some
    by (simp add: indicates_timeout_def StreamProcessingError_def new_Error_def string_or_def
        String_includes_def)
qed

lemma api_error_line_status:
  "status e = Some v \<Longrightarrow> truthy v \<Longrightarrow>
   api_error_line e
   = ''Ollama API error ('' @ ToString v @ ''): '' @ string_or (error_message e) ''Unknown error''"
  by (simp add: api_error_line_def)

lemma api_error_line_unknown:
  "status e = None \<Longrightarrow> statusCode e = None \<Longrightarrow>
   api_error_line e
   = ''Ollama API error (unknown): '' @ string_or (error_message e) ''Unknown error''"
  by (simp add: api_error_line_def)

lemma includes_nonempty: "String_includes m ''timed out'' \<Longrightarrow> m \<noteq> []"
  by (auto simp: String_includes_def)

lemma string_or_absent_if_empty: "string_or (absent_if_empty x) d = string_or x d"
  by (simp add: string_or_def absent_if_empty_def split: option.splits)

lemma make_clientOptions_absent_if_falsy:
  "make_clientOptions (absent_if_falsy opts) = make_clientOptions opts"
  by (simp add: make_clientOptions_def absent_if_falsy_def string_or_absent_if_empty)
     (simp add: absent_if_empty_def split: option.splits)

lemma Number_absent_if_empty:
  "number_or (Number (absent_if_empty x)) d = number_or (Number x) d"
  by (simp add: absent_if_empty_def Number_None Number_empty number_or_def split: option.splits)

lemma getModel_absent_if_falsy: "getModel d (absent_if_falsy opts) = getModel d opts"
  by (simp add: getModel_def absent_if_falsy_def string_or_absent_if_empty
      Number_absent_if_empty)
     (simp add: absent_if_empty_def split: option.splits)

lemma timeoutMs_absent_if_falsy: "timeoutMs (absent_if_falsy opts) = timeoutMs opts"
  by (simp add: timeoutMs_cases absent_if_falsy_def split: option.splits)

lemma chat_request_absent_if_falsy:
  "chat_request d (absent_if_falsy opts) ms = chat_request d opts ms"
  by (simp add: chat_request_def getModel_absent_if_falsy)
     (simp add: absent_if_falsy_def Number_absent_if_empty)

lemma race_absent_if_falsy: "race (absent_if_falsy opts) p = race opts p"
  by (simp add: race_def timeoutMs_absent_if_falsy split: apiPromise.splits)

lemma through_catch_absent_if_falsy:
  "through_catch (absent_if_falsy opts) r = through_catch opts r"
  by (simp add: through_catch_def classify_def TimeoutError_def timeoutMs_absent_if_falsy
      split: completion.splits)

lemma createMessage_absent_if_falsy:
  "fst (createMessage env d (h\<lparr>options := absent_if_falsy (options h)\<rparr>) sp ms)
   = fst (createMessage env d h sp ms)"
  by (simp add: createMessage_def ensureClient_def make_clientOptions_absent_if_falsy
      chat_request_absent_if_falsy race_absent_if_falsy through_catch_absent_if_falsy Let_def
      split: option.splits sum.splits)

lemma api_error_line_fallback:
  "status e = None \<or> (status e = Some v \<and> \<not> truthy v) \<Longrightarrow>
   statusCode e = Some w \<Longrightarrow> truthy w \<Longrightarrow>
   api_error_line e
   = ''Ollama API error ('' @ ToString w @ ''): '' @ string_or (error_message e) ''Unknown error''"
  by (auto simp: api_error_line_def)

lemma api_error_line_none:
  "status e = None \<or> (status e = Some v \<and> \<not> truthy v) \<Longrightarrow>
   statusCode e = None \<or> (statusCode e = Some w \<and> \<not> truthy w) \<Longrightarrow>
   api_error_line e
   = ''Ollama API error (unknown): '' @ string_or (error_message e) ''Unknown error''"
  by (auto simp: api_error_line_def)

lemma string_or_cases:
  "string_or x d = (case x of None \<Rightarrow> d | Some s \<Rightarrow> if s = [] then d else s)"
  by (simp add: string_or_def split: option.splits)

lemma createMessage_refused:
  "ensureClient env h = Inl e \<Longrightarrow>
   fst (createMessage env d h sp ms) = \<lparr>events = [], console = [], ending = Threw e\<rparr>"
  by (simp add: createMessage_def)

lemma createMessage_rejected:
  "ensureClient env h = Inr (cl, h') \<Longrightarrow>
   chat env cl (chat_request d (options h)
     (\<lparr>role = ''system'', content = Str sp\<rparr> # convertToOllamaMessages env ms)) = Rejected e \<Longrightarrow>
   fst (createMessage env d h sp ms)
   = \<lparr>events = [], console = fst (classify (options h) e),
      ending = Threw (snd (classify (options h) e))\<rparr>"
  by (simp add: createMessage_settled race_def through_catch_def split: prod.splits)

lemma ensureClient_refusing:
  "ensureClient (refusing e) (new_OllamaHandler opts)
   = Inl (new_Error (''Error creating Ollama client: ''
                     @ (case error_message e of None \<Rightarrow> ''undefined'' | Some m \<Rightarrow> m)))"
  by (simp add: ensureClient_def refusing_def new_OllamaHandler_def)

section \<open>Properties of the handler\<close>

subsection \<open>Text events\<close>

text \<open>
  C1, as the specification states it: a chunk produces a text event if and only if its
  content field is a non-empty string. The handler tests
  \<^verbatim>\<open>typeof chunk.message.content === "string"\<close> and nothing else, so the empty string
  produces a text event too: for the chunk whose message has the content \<^verbatim>\<open>""\<close> the loop
  yields one text event carrying \<^verbatim>\<open>""\<close>, although the content is not a non-empty string.
\<close>

theorem C1_empty_text_counterexample:
  "emitted (chunk_with (Str '''') None None) = [TextDelta '''']
   \<and> \<not> nonempty_string_content (chunk_with (Str '''') None None)"
  by (simp add: emitted_def loop_body_def chunk_with_def text_part_def usage_part_def
      nonempty_string_content_def)

text \<open>
  C1, as the handler has it. For every chunk, the text events yielded are: none when the
  chunk has no message or its content is not a string; otherwise exactly one, carrying
  exactly the content, the empty string included. So a text event is yielded if and only
  if the chunk carries a message whose content is a string.
\<close>

theorem C1_text_delta_iff_string:
  "filter is_text (emitted c) =
     (case message c of
        None \<Rightarrow> []
      | Some m \<Rightarrow> (case content m of Str s \<Rightarrow> [TextDelta s] | _ \<Rightarrow> []))
   \<and> ((\<exists>t. TextDelta t \<in> set (emitted c)) \<longleftrightarrow> (\<exists>m s. message c = Some m \<and> content m = Str s))"
proof (cases "message c")
  case None
  then show ?thesis
    by (simp add: emitted_without_message)
next
  case (Some m)
  have "(\<exists>t. TextDelta t \<in> set (text_part m @ usage_part c)) \<longleftrightarrow> (\<exists>s. content m = Str s)"
    by (cases "content m") (auto simp: text_part_def usage_part_def)
  moreover have "filter is_text (text_part m @ usage_part c)
                 = (case content m of Str s \<Rightarrow> [TextDelta s] | _ \<Rightarrow> [])"
    by (simp add: no_text_in_usage_part text_part_all_text) (simp add: text_part_def)
  ultimately show ?thesis
    using Some by (simp add: emitted_with_message)
qed

subsection \<open>Usage events\<close>

text \<open>
  C3, as the specification states it, speaks of every incoming chunk. A chunk that has a
  token count and no message object yields no usage event: reading
  \<^verbatim>\<open>chunk.message.content\<close> at line 74 throws before line 82 is reached.
\<close>

theorem C3_bare_chunk_counterexample:
  "eval_count (bare_chunk (Some (Finite 5)) None) = Some (Finite 5)
   \<and> loop_body (bare_chunk (Some (Finite 5)) None) = Inl content_TypeError
   \<and> filter is_usage (events (translate ([bare_chunk (Some (Finite 5)) None], Done))) = []"
  by (simp add: bare_chunk_def loop_body_def translate_def)

text \<open>
  C3, for the chunks that carry a message object. The usage events yielded for the chunk
  are: none when both token counts are undefined; otherwise exactly one, with the input
  tokens from \<^verbatim>\<open>prompt_eval_count\<close> and the output tokens from \<^verbatim>\<open>eval_count\<close>, and \<open>0\<close>
  for a count that is undefined (or falsy). The text event, if any, comes first; a chunk
  yields at most one text event, and zero, one or two events in all.
\<close>

theorem C3_usage_update:
  assumes "message c = Some m"
  shows "(eval_count c = None \<and> prompt_eval_count c = None \<longrightarrow> filter is_usage (emitted c) = [])
    \<and> (eval_count c = Some e \<and> prompt_eval_count c = Some p \<longrightarrow>
          filter is_usage (emitted c)
          = [UsageUpdate (number_or p (Finite 0)) (number_or e (Finite 0))])
    \<and> (eval_count c = Some e \<and> prompt_eval_count c = None \<longrightarrow>
          filter is_usage (emitted c) = [UsageUpdate (Finite 0) (number_or e (Finite 0))])
    \<and> (eval_count c = None \<and> prompt_eval_count c = Some p \<longrightarrow>
          filter is_usage (emitted c) = [UsageUpdate (number_or p (Finite 0)) (Finite 0)])
    \<and> emitted c = filter is_text (emitted c) @ filter is_usage (emitted c)
    \<and> length (filter is_text (emitted c)) \<le> 1
    \<and> length (emitted c) \<le> 2"
proof -
  have u: "filter is_usage (emitted c) = usage_part c"
    using assms by (simp add: emitted_with_message no_usage_in_text_part usage_part_all_usage)
  have t: "filter is_text (emitted c) = text_part m"
    using assms by (simp add: emitted_with_message no_text_in_usage_part text_part_all_text)
  have e: "emitted c = text_part m @ usage_part c"
    using assms by (rule emitted_with_message)
  have lt: "length (text_part m) \<le> 1"
    by (simp add: text_part_def split: jsvalue.splits)
  have lu: "length (usage_part c) \<le> 1"
    by (simp add: usage_part_def)
  show ?thesis
    unfolding u t using lt lu by (simp add: e) (simp add: usage_part_def opt_number_or_def)
qed

text \<open>
  The theorem at four chunks: no count, both counts, the output count alone, the input
  count alone.
\<close>

theorem C3_usage_update_witness:
  "filter is_usage (emitted (chunk_with (Str ''Hi'') None None)) = []
   \<and> filter is_usage (emitted (chunk_with Undefined (Some (Finite 5)) (Some (Finite 12))))
     = [UsageUpdate (Finite 12) (Finite 5)]
   \<and> filter is_usage (emitted (chunk_with (Str ''Hi'') (Some (Finite 5)) None))
     = [UsageUpdate (Finite 0) (Finite 5)]
   \<and> filter is_usage (emitted (chunk_with Undefined None (Some (Finite 12))))
     = [UsageUpdate (Finite 12) (Finite 0)]
   \<and> length (emitted (chunk_with (Str ''Hi'') (Some (Finite 5)) None)) = 2"
proof -
  let ?m = "\<lambda>v. \<lparr>role = ''assistant'', content = v\<rparr>"
  have a: "filter is_usage (emitted (chunk_with (Str ''Hi'') None None)) = []"
    using C3_usage_update [of "chunk_with (Str ''Hi'') None None" "?m (Str ''Hi'')"]
    by (simp add: chunk_with_def)
  have b: "filter is_usage (emitted (chunk_with Undefined (Some (Finite 5)) (Some (Finite 12))))
           = [UsageUpdate (Finite 12) (Finite 5)]"
    using C3_usage_update [of "chunk_with Undefined (Some (Finite 5)) (Some (Finite 12))"
        "?m Undefined" "Finite 5" "Finite 12"]
    by (simp add: chunk_with_def number_or_def)
  have c: "filter is_usage (emitted (chunk_with (Str ''Hi'') (Some (Finite 5)) None))
           = [UsageUpdate (Finite 0) (Finite 5)]"
    using C3_usage_update [of "chunk_with (Str ''Hi'') (Some (Finite 5)) None"
        "?m (Str ''Hi'')" "Finite 5"]
    by (simp add: chunk_with_def number_or_def)
  have d: "filter is_usage (emitted (chunk_with Undefined None (Some (Finite 12))))
           = [UsageUpdate (Finite 12) (Finite 0)]"
    using C3_usage_update [of "chunk_with Undefined None (Some (Finite 12))"
        "?m Undefined" _ "Finite 12"]
    by (simp add: chunk_with_def number_or_def)
  have e: "length (emitted (chunk_with (Str ''Hi'') (Some (Finite 5)) None)) = 2"
    by (simp add: emitted_def loop_body_def chunk_with_def text_part_def usage_part_def)
  show ?thesis
    using a b c d e by simp
qed

subsection \<open>Order of the events\<close>

text \<open>
  C8. The events of a run are the events of the chunks, chunk after chunk in the order of
  arrival, up to the first chunk without a message object, where the loop stops (C9); this
  holds for the stream translator and for every run of \<open>createMessage\<close> whose request is
  fulfilled with a stream. Within one chunk the text event precedes the usage event. For
  the three chunks of scenario A the translator yields exactly
  \<open>TextDelta ''Hello''\<close>, \<open>TextDelta '' world''\<close>, \<open>UsageUpdate 12 5\<close> (input tokens 12,
  output tokens 5) and ends normally.
\<close>

theorem C8_events_in_chunk_order:
  "(ensureClient env h = Inr (cl, h')
      \<and> chat env cl (chat_request d (options h)
           (\<lparr>role = ''system'', content = Str sp\<rparr> # convertToOllamaMessages env ms))
        = Fulfilled (cs, fin)
      \<longrightarrow> events (fst (createMessage env d h sp ms))
          = concat (map emitted (takeWhile has_message cs)))
   \<and> events (translate (cs, fin)) = concat (map emitted (takeWhile has_message cs))
   \<and> emitted c = filter is_text (emitted c) @ filter is_usage (emitted c)
   \<and> translate (scenario_A, Done)
     = \<lparr>events = [TextDelta ''Hello'', TextDelta '' world'', UsageUpdate (Finite 12) (Finite 5)],
        console = [], ending = Done\<rparr>"
proof -
  have "events (fst (createMessage env d h sp ms))
        = concat (map emitted (takeWhile has_message cs))"
    if "ensureClient env h = Inr (cl, h')"
      and "chat env cl (chat_request d (options h)
             (\<lparr>role = ''system'', content = Str sp\<rparr> # convertToOllamaMessages env ms))
           = Fulfilled (cs, fin)"
    using that
    by (simp add: createMessage_settled events_through_catch race_def events_translate
        for_await_events)
  moreover have "translate (scenario_A, Done)
     = \<lparr>events = [TextDelta ''Hello'', TextDelta '' world'', UsageUpdate (Finite 12) (Finite 5)],
        console = [], ending = Done\<rparr>"
    by (simp add: translate_all scenario_A_has_message emitted_scenario_A)
  ultimately show ?thesis
    using emitted_order [of c] by (simp add: events_translate for_await_events)
qed

text \<open>
  Scenario A through \<open>createMessage\<close>, with a client that constructs and a request that
  is fulfilled with the three chunks.
\<close>

theorem C8_events_in_chunk_order_witness:
  "fst (createMessage (scripted (Fulfilled (scenario_A, Done))) wide_defaults
          (new_OllamaHandler unset) ''Be brief.'' [])
   = \<lparr>events = [TextDelta ''Hello'', TextDelta '' world'', UsageUpdate (Finite 12) (Finite 5)],
      console = [], ending = Done\<rparr>"
proof -
  let ?env = "scripted (Fulfilled (scenario_A, Done))"
  let ?h = "new_OllamaHandler unset :: unit OllamaHandler"
  have c: "chat ?env () rq = Fulfilled (scenario_A, Done)" for rq
    by (simp add: scripted_def)
  have "events (fst (createMessage ?env wide_defaults ?h ''Be brief.'' []))
        = concat (map emitted (takeWhile has_message scenario_A))"
    using C8_events_in_chunk_order [of ?env ?h "()" _ wide_defaults "''Be brief.''" "[]"
        scenario_A Done]
    by (simp add: ensureClient_scripted c)
  moreover have "takeWhile has_message scenario_A = scenario_A"
    using scenario_A_has_message by (simp add: takeWhile_eq_all_conv list_all_iff)
  moreover have "fst (createMessage ?env wide_defaults ?h ''Be brief.'' [])
        = translate (scenario_A, Done)"
    by (simp add: createMessage_settled [OF ensureClient_scripted] c race_def
        through_catch_Done translate_all scenario_A_has_message)
  ultimately show ?thesis
    by (simp add: translate_all scenario_A_has_message emitted_scenario_A)
qed

subsection \<open>An error raised by the stream\<close>

text \<open>
  C4, as the specification states it, lets the sequence end with the stream processing
  error whatever the stream raised. The error thrown at line 92 is caught again at line 94,
  and the test of line 96 reads its message, which contains the message of the original
  error: when that contains \<^verbatim>\<open>timed out\<close>, the caller receives the timeout error of line 98
  and the original message is gone. Here the stream delivers one chunk and raises
  \<^verbatim>\<open>socket timed out\<close>.
\<close>

theorem C4_timed_out_stream_error_counterexample:
  "fst (createMessage
          (scripted (Fulfilled ([chunk_with (Str ''Hello'') None None],
                                Threw (new_Error ''socket timed out''))))
          wide_defaults (new_OllamaHandler unset) ''Hi'' [])
   = \<lparr>events = [TextDelta ''Hello''],
      console = [console_error ''Error processing Ollama stream:''
                   (Some (new_Error ''socket timed out''))],
      ending = Threw (new_Error ''Ollama request timed out after 30 seconds'')\<rparr>"
proof -
  let ?s = "([chunk_with (Str ''Hello'') None None], Threw (new_Error ''socket timed out''))"
  let ?env = "scripted (Fulfilled ?s)"
  have c: "chat ?env () rq = Fulfilled ?s" for rq
    by (simp add: scripted_def)
  have t: "translate ?s
           = \<lparr>events = [TextDelta ''Hello''],
              console = [console_error ''Error processing Ollama stream:''
                           (Some (new_Error ''socket timed out''))],
              ending = Threw (StreamProcessingError (new_Error ''socket timed out''))\<rparr>"
    by (simp add: translate_def loop_body_def chunk_with_def text_part_def usage_part_def)
  have i: "indicates_timeout (StreamProcessingError (new_Error ''socket timed out''))"
    by (simp add: wrapped_indicates_timeout new_Error_def String_includes_def
        sublist_Cons_right)
  have m: "timeout_message (timeoutMs (options (new_OllamaHandler unset)))
           = ''Ollama request timed out after 30 seconds''"
    by (simp add: new_OllamaHandler_def timeoutMs_cases unset_def timeout_message_30000)
  show ?thesis
    by (simp add: createMessage_settled [OF ensureClient_scripted] c race_def t
        through_catch_timeout [OF _ i] TimeoutError_def)
       (simp add: new_OllamaHandler_def timeoutMs_cases unset_def timeout_message_30000)
qed

text \<open>
  C4, as the handler has it. When the stream raises an error \<open>e\<close> after chunks that all
  carry a message object, the stream translator (lines 72 to 93) delivers the events of
  those chunks, none after them, logs \<open>e\<close> and throws the stream processing error, whose
  message is \<^verbatim>\<open>Ollama stream processing error: \<close> followed by the message of \<open>e\<close>, or by
  \<^verbatim>\<open>Unknown error\<close> when \<open>e\<close> has no message or an empty one. A run of \<open>createMessage\<close>
  delivers the same events and ends with that error, unless the message of \<open>e\<close> contains
  \<^verbatim>\<open>timed out\<close>: then it ends with the timeout error.
\<close>

theorem C4_stream_error:
  "(list_all has_message cs \<longrightarrow>
      translate (cs, Threw e)
      = \<lparr>events = concat (map emitted cs),
         console = [console_error ''Error processing Ollama stream:'' (Some e)],
         ending = Threw (StreamProcessingError e)\<rparr>)
   \<and> error_message (StreamProcessingError e)
     = Some (''Ollama stream processing error: ''
             @ (case error_message e of
                  None \<Rightarrow> ''Unknown error''
                | Some m \<Rightarrow> if m = [] then ''Unknown error'' else m))
   \<and> (list_all has_message cs
        \<and> ensureClient env h = Inr (cl, h')
        \<and> chat env cl (chat_request d (options h)
             (\<lparr>role = ''system'', content = Str sp\<rparr> # convertToOllamaMessages env ms))
          = Fulfilled (cs, Threw e)
        \<longrightarrow> events (fst (createMessage env d h sp ms)) = concat (map emitted cs)
            \<and> ending (fst (createMessage env d h sp ms))
              = (if (case error_message e of
                       None \<Rightarrow> False | Some m \<Rightarrow> String_includes m ''timed out'')
                 then Threw (TimeoutError (options h))
                 else Threw (StreamProcessingError e)))"
proof -
  have w: "indicates_timeout (StreamProcessingError e)
           \<longleftrightarrow> (case error_message e of
                  None \<Rightarrow> False | Some m \<Rightarrow> String_includes m ''timed out'')"
    by (simp add: wrapped_indicates_timeout split: option.splits)
  have "events (fst (createMessage env d h sp ms)) = concat (map emitted cs)
        \<and> ending (fst (createMessage env d h sp ms))
          = (if (case error_message e of
                   None \<Rightarrow> False | Some m \<Rightarrow> String_includes m ''timed out'')
             then Threw (TimeoutError (options h))
             else Threw (StreamProcessingError e))"
    if "list_all has_message cs" and "ensureClient env h = Inr (cl, h')"
      and "chat env cl (chat_request d (options h)
             (\<lparr>role = ''system'', content = Str sp\<rparr> # convertToOllamaMessages env ms))
           = Fulfilled (cs, Threw e)"
    using that
    by (simp add: createMessage_settled race_def translate_raise events_through_catch
        through_catch_def classify_def w [symmetric])
  then show ?thesis
    by (simp add: translate_raise StreamProcessingError_def new_Error_def string_or_def
        split: option.splits)
qed

text \<open>Scenario C: one chunk, then the stream raises \<^verbatim>\<open>socket hang up\<close>.\<close>

theorem C4_stream_error_witness:
  "translate ([chunk_with (Str ''Hello'') None None], Threw (new_Error ''socket hang up''))
   = \<lparr>events = [TextDelta ''Hello''],
      console = [console_error ''Error processing Ollama stream:''
                   (Some (new_Error ''socket hang up''))],
      ending = Threw (new_Error ''Ollama stream processing error: socket hang up'')\<rparr>
   \<and> ending (fst (createMessage
                    (scripted (Fulfilled ([chunk_with (Str ''Hello'') None None],
                                          Threw (new_Error ''socket hang up''))))
                    wide_defaults (new_OllamaHandler unset) ''Hi'' []))
     = Threw (new_Error ''Ollama stream processing error: socket hang up'')"
proof -
  let ?cs = "[chunk_with (Str ''Hello'') None None]"
  let ?e = "new_Error ''socket hang up''"
  let ?env = "scripted (Fulfilled (?cs, Threw ?e))"
  let ?h = "new_OllamaHandler unset :: unit OllamaHandler"
  let ?h' = "\<lparr>options = unset, client = Some ()\<rparr>"
  note w = C4_stream_error [of ?cs ?e ?env ?h "()" ?h' wide_defaults "''Hi''" "[]"]
  have m: "list_all has_message ?cs"
    by (simp add: has_message_def chunk_with_def)
  have em: "emitted (chunk_with (Str ''Hello'') None None) = [TextDelta ''Hello'']"
    by (simp add: emitted_def loop_body_def chunk_with_def text_part_def usage_part_def)
  have sp: "StreamProcessingError ?e = new_Error ''Ollama stream processing error: socket hang up''"
    by (simp add: StreamProcessingError_def new_Error_def string_or_def)
  have a: "translate (?cs, Threw ?e)
   = \<lparr>events = [TextDelta ''Hello''],
      console = [console_error ''Error processing Ollama stream:'' (Some ?e)],
      ending = Threw (new_Error ''Ollama stream processing error: socket hang up'')\<rparr>"
    using w [THEN conjunct1] m by (simp add: em sp)
  have n: "\<not> String_includes ''socket hang up'' ''timed out''"
    by (simp add: String_includes_def sublist_Cons_right)
  have "ensureClient ?env ?h = Inr ((), ?h')"
    by (rule ensureClient_scripted)
  moreover have "chat ?env () rq = Fulfilled (?cs, Threw ?e)" for rq
    by (simp add: scripted_def)
  ultimately have b: "ending (fst (createMessage ?env wide_defaults ?h ''Hi'' []))
     = Threw (new_Error ''Ollama stream processing error: socket hang up'')"
    using w [THEN conjunct2, THEN conjunct2] m n by (simp add: sp error_message_new_Error)
  show ?thesis
    using a b by blast
qed

subsection \<open>A chunk without a message object\<close>

text \<open>
  C9. When a chunk has no message object and the chunks before it have one, the body of
  the loop throws at that chunk: the translator delivers the events of the chunks before
  it, nothing of the chunk or of those after it, and throws the stream processing error
  built from the \<^verbatim>\<open>TypeError\<close>, whose message is \<^verbatim>\<open>Ollama stream processing error: \<close>
  followed by the message of the \<^verbatim>\<open>TypeError\<close>; the outer \<^verbatim>\<open>catch\<close> logs it with the status
  \<^verbatim>\<open>unknown\<close> and throws it on unchanged. When every chunk carries a message object, the
  body never throws: the loop ends the way the stream ends, and a stream that is exhausted
  gives a run that ends normally.
\<close>

theorem C9_chunk_without_message:
  "(list_all has_message pre \<and> message c = None \<longrightarrow>
      loop_body c = Inl content_TypeError
      \<and> translate (pre @ c # post, fin)
        = \<lparr>events = concat (map emitted pre),
           console = [console_error ''Error processing Ollama stream:''
                        (Some content_TypeError)],
           ending = Threw (StreamProcessingError content_TypeError)\<rparr>
      \<and> through_catch opts (translate (pre @ c # post, fin))
        = \<lparr>events = concat (map emitted pre),
           console = [console_error ''Error processing Ollama stream:''
                        (Some content_TypeError),
                      console_error (api_error_line (StreamProcessingError content_TypeError))
                        None],
           ending = Threw (StreamProcessingError content_TypeError)\<rparr>)
   \<and> content_TypeError
     = \<lparr>error_message = Some (''Cannot read properties of undefined (reading ''
                              @ [CHR 0x27] @ ''content'' @ [CHR 0x27] @ '')''),
        status = None, statusCode = None\<rparr>
   \<and> StreamProcessingError content_TypeError
     = \<lparr>error_message = Some (''Ollama stream processing error: ''
                              @ ''Cannot read properties of undefined (reading ''
                              @ [CHR 0x27] @ ''content'' @ [CHR 0x27] @ '')''),
        status = None, statusCode = None\<rparr>
   \<and> api_error_line (StreamProcessingError content_TypeError)
     = ''Ollama API error (unknown): Ollama stream processing error: ''
       @ ''Cannot read properties of undefined (reading ''
       @ [CHR 0x27] @ ''content'' @ [CHR 0x27] @ '')''
   \<and> (list_all has_message cs \<longrightarrow>
        list_all (\<lambda>k. loop_body k = Inr (emitted k)) cs
        \<and> for_await cs fin = (concat (map emitted cs), fin)
        \<and> translate (cs, Done)
          = \<lparr>events = concat (map emitted cs), console = [], ending = Done\<rparr>)"
proof -
  have l: "list_all (\<lambda>k. loop_body k = Inr (emitted k)) cs" if "list_all has_message cs"
    using that
    by (induction cs) (auto simp: has_message_def emitted_def loop_body_def)
  have s: "StreamProcessingError content_TypeError
     = \<lparr>error_message = Some (''Ollama stream processing error: ''
                              @ ''Cannot read properties of undefined (reading ''
                              @ [CHR 0x27] @ ''content'' @ [CHR 0x27] @ '')''),
        status = None, statusCode = None\<rparr>"
    by (simp add: StreamProcessingError_def content_TypeError_def new_Error_def string_or_def)
  have a: "api_error_line (StreamProcessingError content_TypeError)
     = ''Ollama API error (unknown): Ollama stream processing error: ''
       @ ''Cannot read properties of undefined (reading ''
       @ [CHR 0x27] @ ''content'' @ [CHR 0x27] @ '')''"
    by (simp add: s api_error_line_def string_or_def)
  have t: "content_TypeError
     = \<lparr>error_message = Some (''Cannot read properties of undefined (reading ''
                              @ [CHR 0x27] @ ''content'' @ [CHR 0x27] @ '')''),
        status = None, statusCode = None\<rparr>"
    by (simp add: content_TypeError_def new_Error_def)
  have "loop_body c = Inl content_TypeError
      \<and> translate (pre @ c # post, fin)
        = \<lparr>events = concat (map emitted pre),
           console = [console_error ''Error processing Ollama stream:''
                        (Some content_TypeError)],
           ending = Threw (StreamProcessingError content_TypeError)\<rparr>
      \<and> through_catch opts (translate (pre @ c # post, fin))
        = \<lparr>events = concat (map emitted pre),
           console = [console_error ''Error processing Ollama stream:''
                        (Some content_TypeError),
                      console_error (api_error_line (StreamProcessingError content_TypeError))
                        None],
           ending = Threw (StreamProcessingError content_TypeError)\<rparr>"
    if "list_all has_message pre" and "message c = None"
    using that
    by (simp add: translate_stop loop_body_def through_catch_other not_timeout_TypeError)
  moreover have "for_await cs fin = (concat (map emitted cs), fin)
        \<and> translate (cs, Done)
          = \<lparr>events = concat (map emitted cs), console = [], ending = Done\<rparr>"
    if "list_all has_message cs"
    using that by (simp add: translate_all for_await_all)
  ultimately show ?thesis
    using l s a t by blast
qed

text \<open>
  Three chunks of which the second has no message object, through the translator and the
  outer \<^verbatim>\<open>catch\<close>, and two chunks that both have a message object.
\<close>

theorem C9_chunk_without_message_witness:
  "through_catch unset
     (translate ([chunk_with (Str ''Hello'') None None, bare_chunk (Some (Finite 5)) None,
                  chunk_with (Str ''lost'') None None], Done))
   = \<lparr>events = [TextDelta ''Hello''],
      console = [console_error ''Error processing Ollama stream:''
                   (Some (new_Error (''Cannot read properties of undefined (reading ''
                                     @ [CHR 0x27] @ ''content'' @ [CHR 0x27] @ '')''))),
                 console_error
                   (''Ollama API error (unknown): Ollama stream processing error: ''
                    @ ''Cannot read properties of undefined (reading ''
                    @ [CHR 0x27] @ ''content'' @ [CHR 0x27] @ '')'') None],
      ending = Threw (new_Error (''Ollama stream processing error: ''
                                 @ ''Cannot read properties of undefined (reading ''
                                 @ [CHR 0x27] @ ''content'' @ [CHR 0x27] @ '')''))\<rparr>
   \<and> translate ([chunk_with (Str ''Hello'') None None, chunk_with (Str ''kept'') None None],
        Done)
     = \<lparr>events = [TextDelta ''Hello'', TextDelta ''kept''], console = [], ending = Done\<rparr>"
proof -
  let ?a = "chunk_with (Str ''Hello'') None None"
  let ?b = "bare_chunk (Some (Finite 5)) None"
  let ?c = "chunk_with (Str ''lost'') None None"
  let ?d = "chunk_with (Str ''kept'') None None"
  note stop = C9_chunk_without_message [of "[?a]" ?b "[?c]" Done unset "[?a, ?d]"]
  have e: "emitted ?a = [TextDelta ''Hello'']" "emitted ?d = [TextDelta ''kept'']"
    by (simp_all add: emitted_def loop_body_def chunk_with_def text_part_def usage_part_def)
  have p: "list_all has_message [?a] \<and> message ?b = None"
    by (simp add: has_message_def chunk_with_def bare_chunk_def)
  have q: "list_all has_message [?a, ?d]"
    by (simp add: has_message_def chunk_with_def)
  have te: "content_TypeError
            = new_Error (''Cannot read properties of undefined (reading ''
                         @ [CHR 0x27] @ ''content'' @ [CHR 0x27] @ '')'')"
    using stop [THEN conjunct2, THEN conjunct1] by (simp add: new_Error_def)
  have se: "StreamProcessingError content_TypeError
            = new_Error (''Ollama stream processing error: ''
                         @ ''Cannot read properties of undefined (reading ''
                         @ [CHR 0x27] @ ''content'' @ [CHR 0x27] @ '')'')"
    using stop [THEN conjunct2, THEN conjunct2, THEN conjunct1] by (simp add: new_Error_def)
  have al: "api_error_line (StreamProcessingError content_TypeError)
            = ''Ollama API error (unknown): Ollama stream processing error: ''
              @ ''Cannot read properties of undefined (reading ''
              @ [CHR 0x27] @ ''content'' @ [CHR 0x27] @ '')''"
    by (rule stop [THEN conjunct2, THEN conjunct2, THEN conjunct2, THEN conjunct1])
  have "through_catch unset (translate ([?a] @ ?b # [?c], Done))
        = \<lparr>events = concat (map emitted [?a]),
           console = [console_error ''Error processing Ollama stream:''
                        (Some content_TypeError),
                      console_error (api_error_line (StreamProcessingError content_TypeError))
                        None],
           ending = Threw (StreamProcessingError content_TypeError)\<rparr>"
    using stop [THEN conjunct1, rule_format, OF p] by (rule conjunct2 [THEN conjunct2])
  then have a: "through_catch unset (translate ([?a, ?b, ?c], Done))
   = \<lparr>events = [TextDelta ''Hello''],
      console = [console_error ''Error processing Ollama stream:''
                   (Some (new_Error (''Cannot read properties of undefined (reading ''
                                     @ [CHR 0x27] @ ''content'' @ [CHR 0x27] @ '')''))),
                 console_error
                   (''Ollama API error (unknown): Ollama stream processing error: ''
                    @ ''Cannot read properties of undefined (reading ''
                    @ [CHR 0x27] @ ''content'' @ [CHR 0x27] @ '')'') None],
      ending = Threw (new_Error (''Ollama stream processing error: ''
                                 @ ''Cannot read properties of undefined (reading ''
                                 @ [CHR 0x27] @ ''content'' @ [CHR 0x27] @ '')''))\<rparr>"
    by (simp only: te [symmetric] se [symmetric] al [symmetric]) (simp add: e)
  have "translate ([?a, ?d], Done)
        = \<lparr>events = concat (map emitted [?a, ?d]), console = [], ending = Done\<rparr>"
    using stop [THEN conjunct2, THEN conjunct2, THEN conjunct2, THEN conjunct2, rule_format,
        OF q]
    by (rule conjunct2 [THEN conjunct2])
  then have b: "translate ([?a, ?d], Done)
     = \<lparr>events = [TextDelta ''Hello'', TextDelta ''kept''], console = [], ending = Done\<rparr>"
    by (simp add: e)
  show ?thesis
    by (intro conjI a b)
qed

subsection \<open>The race against the timer\<close>

text \<open>
  C5, as the specification states it, takes the configured value for \<^verbatim>\<open>timeoutMs\<close> whenever
  one is set. Line 54 is \<^verbatim>\<open>this.options.requestTimeoutMs || 30000\<close>: a configured \<open>0\<close> gives
  30000, and the message reports 30 seconds, not 0.
\<close>

theorem C5_zero_timeout_counterexample:
  "requestTimeoutMs (unset\<lparr>requestTimeoutMs := Some (Finite 0)\<rparr>) = Some (Finite 0)
   \<and> timeoutMs (unset\<lparr>requestTimeoutMs := Some (Finite 0)\<rparr>) = Finite 30000
   \<and> race (unset\<lparr>requestTimeoutMs := Some (Finite 0)\<rparr>) Unsettled
     = Inl (new_Error ''Ollama request timed out after 30 seconds'')"
  by (simp add: race_def timeoutMs_cases unset_def timeout_message_30000)

text \<open>
  C5, as the handler has it. When the timer fires first, the race fails with the error
  whose message is \<^verbatim>\<open>Ollama request timed out after \<close>, \<^verbatim>\<open>timeoutMs / 1000\<close> and
  \<^verbatim>\<open> seconds\<close>; a rejected request gives its own error and a fulfilled one its stream.
  \<^verbatim>\<open>timeoutMs\<close> is 30000 when no timeout is configured, the configured value when that is
  truthy, and 30000 again when it is \<open>0\<close> or \<^verbatim>\<open>NaN\<close>. A run of \<open>createMessage\<close> whose timer
  fires first yields no event and ends with that timeout error.
\<close>

theorem C5_timeout_race:
  "race opts Unsettled
   = Inl (new_Error (''Ollama request timed out after ''
                     @ ToString (divide (timeoutMs opts) 1000) @ '' seconds''))
   \<and> race opts (Rejected e) = Inl e
   \<and> race opts (Fulfilled s) = Inr s
   \<and> (requestTimeoutMs opts = None \<longrightarrow> timeoutMs opts = Finite 30000)
   \<and> (requestTimeoutMs opts = Some t \<and> truthy t \<longrightarrow> timeoutMs opts = t)
   \<and> (requestTimeoutMs opts = Some t \<and> \<not> truthy t \<longrightarrow> timeoutMs opts = Finite 30000)
   \<and> (ensureClient env h = Inr (cl, h')
        \<and> chat env cl (chat_request d (options h)
             (\<lparr>role = ''system'', content = Str sp\<rparr> # convertToOllamaMessages env ms))
          = Unsettled
        \<longrightarrow> fst (createMessage env d h sp ms)
            = \<lparr>events = [], console = [],
               ending = Threw (new_Error (timeout_message (timeoutMs (options h))))\<rparr>)"
proof -
  have "fst (createMessage env d h sp ms)
        = \<lparr>events = [], console = [],
           ending = Threw (new_Error (timeout_message (timeoutMs (options h))))\<rparr>"
    if "ensureClient env h = Inr (cl, h')"
      and "chat env cl (chat_request d (options h)
             (\<lparr>role = ''system'', content = Str sp\<rparr> # convertToOllamaMessages env ms))
           = Unsettled"
    using that
    by (simp add: createMessage_settled race_def through_catch_timeout
        indicates_timeout_TimeoutError TimeoutError_def)
  then show ?thesis
    by (simp add: race_def timeoutMs_cases timeout_message_def)
qed

text \<open>
  No timeout configured: 30 seconds. A timeout of 5000: 5 seconds. A timeout that is
  \<^verbatim>\<open>NaN\<close>: 30000 milliseconds.
\<close>

theorem C5_timeout_race_witness:
  "fst (createMessage (scripted Unsettled) wide_defaults (new_OllamaHandler unset) ''Hi'' [])
   = \<lparr>events = [], console = [],
      ending = Threw (new_Error ''Ollama request timed out after 30 seconds'')\<rparr>
   \<and> race (unset\<lparr>requestTimeoutMs := Some (Finite 5000)\<rparr>) Unsettled
     = Inl (new_Error ''Ollama request timed out after 5 seconds'')
   \<and> timeoutMs (unset\<lparr>requestTimeoutMs := Some NaN\<rparr>) = Finite 30000"
proof -
  let ?env = "scripted Unsettled"
  let ?h = "new_OllamaHandler unset :: unit OllamaHandler"
  let ?h' = "\<lparr>options = unset, client = Some ()\<rparr>"
  let ?five = "unset\<lparr>requestTimeoutMs := Some (Finite 5000)\<rparr>"
  let ?nan = "unset\<lparr>requestTimeoutMs := Some NaN\<rparr>"
  note unset = C5_timeout_race [of unset "new_Error []" "([], Done)" "Finite 0" ?env ?h "()"
      ?h' wide_defaults "''Hi''" "[]"]
  note five = C5_timeout_race [of ?five "new_Error []" "([], Done)" "Finite 5000" ?env ?h "()"
      ?h' wide_defaults "''Hi''" "[]"]
  note nan = C5_timeout_race [of ?nan "new_Error []" "([], Done)" NaN ?env ?h "()"
      ?h' wide_defaults "''Hi''" "[]"]
  have "requestTimeoutMs unset = None"
    by (simp add: unset_def)
  with unset have t: "timeoutMs (options ?h) = Finite 30000"
    by (simp add: new_OllamaHandler_def)
  have "ensureClient ?env ?h = Inr ((), ?h')"
    by (rule ensureClient_scripted)
  moreover have "chat ?env () rq = Unsettled" for rq
    by (simp add: scripted_def)
  ultimately have a: "fst (createMessage ?env wide_defaults ?h ''Hi'' [])
           = \<lparr>events = [], console = [],
              ending = Threw (new_Error ''Ollama request timed out after 30 seconds'')\<rparr>"
    using unset by (simp add: t timeout_message_30000)
  have "requestTimeoutMs ?five = Some (Finite 5000) \<and> truthy (Finite 5000)"
    by simp
  with five have "timeoutMs ?five = Finite 5000"
    by blast
  with five timeout_message_5000
  have b: "race ?five Unsettled = Inl (new_Error ''Ollama request timed out after 5 seconds'')"
    by (simp add: timeout_message_def)
  have "requestTimeoutMs ?nan = Some NaN \<and> \<not> truthy NaN"
    by simp
  with nan have c: "timeoutMs ?nan = Finite 30000"
    by blast
  show ?thesis
    using a b c by simp
qed

subsection \<open>The error classifier\<close>

text \<open>
  C7. An error whose message contains \<^verbatim>\<open>timed out\<close> is replaced by a new error with the
  message \<^verbatim>\<open>Ollama request timed out after \<close>, \<^verbatim>\<open>timeoutMs / 1000\<close> and \<^verbatim>\<open> seconds\<close>, and
  nothing is logged; \<^verbatim>\<open>timeoutMs\<close> is read again from the options: 30000 when no timeout
  is configured, the configured value when that is truthy, 30000 when it is \<open>0\<close> or
  \<^verbatim>\<open>NaN\<close>. Any other error, with or without a message, is thrown on as it is, after one
  line on the console: \<^verbatim>\<open>Ollama API error (\<close>, the status code, \<^verbatim>\<open>): \<close> and the message
  or \<^verbatim>\<open>Unknown error\<close>. The status code is \<^verbatim>\<open>status\<close> when that is truthy, otherwise
  \<^verbatim>\<open>statusCode\<close> when that is truthy, otherwise the word \<^verbatim>\<open>unknown\<close>. The timeout error of
  the race is itself classified as a timeout. What reaches the classifier is what is
  thrown inside the \<^verbatim>\<open>try\<close> of line 52: a rejected request ends the run with the
  classifier's error and console lines, while an error of \<open>ensureClient\<close>, thrown at line
  49, ends the run as it is and is not classified.
\<close>

theorem C7_classify:
  "(error_message e = Some m \<and> String_includes m ''timed out'' \<longrightarrow>
      classify opts e
      = ([], \<lparr>error_message = Some (''Ollama request timed out after ''
                                     @ ToString (divide (timeoutMs opts) 1000) @ '' seconds''),
              status = None, statusCode = None\<rparr>))
   \<and> (requestTimeoutMs opts = None \<longrightarrow> timeoutMs opts = Finite 30000)
   \<and> (requestTimeoutMs opts = Some t \<and> truthy t \<longrightarrow> timeoutMs opts = t)
   \<and> (requestTimeoutMs opts = Some t \<and> \<not> truthy t \<longrightarrow> timeoutMs opts = Finite 30000)
   \<and> (error_message e = None \<or> (error_message e = Some m \<and> \<not> String_includes m ''timed out'')
        \<longrightarrow> classify opts e = ([console_error (api_error_line e) None], e))
   \<and> (status e = Some v \<and> truthy v \<longrightarrow>
        api_error_line e
        = ''Ollama API error ('' @ ToString v @ ''): ''
          @ (case error_message e of
               None \<Rightarrow> ''Unknown error''
             | Some m \<Rightarrow> if m = [] then ''Unknown error'' else m))
   \<and> ((status e = None \<or> (status e = Some v \<and> \<not> truthy v))
        \<and> statusCode e = Some w \<and> truthy w \<longrightarrow>
        api_error_line e
        = ''Ollama API error ('' @ ToString w @ ''): ''
          @ (case error_message e of
               None \<Rightarrow> ''Unknown error''
             | Some m \<Rightarrow> if m = [] then ''Unknown error'' else m))
   \<and> ((status e = None \<or> (status e = Some v \<and> \<not> truthy v))
        \<and> (statusCode e = None \<or> (statusCode e = Some w \<and> \<not> truthy w)) \<longrightarrow>
        api_error_line e
        = ''Ollama API error (unknown): ''
          @ (case error_message e of
               None \<Rightarrow> ''Unknown error''
             | Some m \<Rightarrow> if m = [] then ''Unknown error'' else m))
   \<and> classify opts
         \<lparr>error_message = Some (''Ollama request timed out after '' @ x @ '' seconds''),
          status = None, statusCode = None\<rparr>
     = ([], \<lparr>error_message = Some (''Ollama request timed out after ''
                                    @ ToString (divide (timeoutMs opts) 1000) @ '' seconds''),
             status = None, statusCode = None\<rparr>)
   \<and> (ensureClient env h = Inr (cl, h')
        \<and> chat env cl (chat_request d (options h)
             (\<lparr>role = ''system'', content = Str sp\<rparr> # convertToOllamaMessages env ms))
          = Rejected e
        \<longrightarrow> fst (createMessage env d h sp ms)
            = \<lparr>events = [], console = fst (classify (options h) e),
               ending = Threw (snd (classify (options h) e))\<rparr>)
   \<and> (ensureClient env h = Inl e \<longrightarrow>
        fst (createMessage env d h sp ms) = \<lparr>events = [], console = [], ending = Threw e\<rparr>)"
proof -
  have t: "TimeoutError opts
           = \<lparr>error_message = Some (''Ollama request timed out after ''
                                    @ ToString (divide (timeoutMs opts) 1000) @ '' seconds''),
              status = None, statusCode = None\<rparr>"
    by (simp add: TimeoutError_def new_Error_def timeout_message_def)
  have c1: "classify opts e = ([], TimeoutError opts)"
    if "error_message e = Some m" and "String_includes m ''timed out''"
    using that includes_nonempty [of m] by (simp add: classify_def indicates_timeout_def)
  have c2: "classify opts e = ([console_error (api_error_line e) None], e)"
    if "error_message e = None \<or> (error_message e = Some m \<and> \<not> String_includes m ''timed out'')"
    using that by (auto simp: classify_def indicates_timeout_def)
  have c3: "classify opts
              \<lparr>error_message = Some (''Ollama request timed out after '' @ x @ '' seconds''),
               status = None, statusCode = None\<rparr>
            = ([], TimeoutError opts)"
    by (simp add: classify_def indicates_timeout_def String_includes_def sublist_Cons_right)
  have s: "string_or (error_message e) ''Unknown error''
           = (case error_message e of
                None \<Rightarrow> ''Unknown error''
              | Some m \<Rightarrow> if m = [] then ''Unknown error'' else m)"
    by (rule string_or_cases)
  have a1: "api_error_line e
            = ''Ollama API error ('' @ ToString v @ ''): ''
              @ string_or (error_message e) ''Unknown error''"
    if "status e = Some v" and "truthy v"
    using that by (rule api_error_line_status)
  have a2: "api_error_line e
            = ''Ollama API error ('' @ ToString w @ ''): ''
              @ string_or (error_message e) ''Unknown error''"
    if "status e = None \<or> (status e = Some v \<and> \<not> truthy v)"
      and "statusCode e = Some w" and "truthy w"
    using that by (rule api_error_line_fallback)
  have a3: "api_error_line e
            = ''Ollama API error (unknown): '' @ string_or (error_message e) ''Unknown error''"
    if "status e = None \<or> (status e = Some v \<and> \<not> truthy v)"
      and "statusCode e = None \<or> (statusCode e = Some w \<and> \<not> truthy w)"
    using that by (rule api_error_line_none)
  have tm: "(requestTimeoutMs opts = None \<longrightarrow> timeoutMs opts = Finite 30000)
            \<and> (requestTimeoutMs opts = Some t \<and> truthy t \<longrightarrow> timeoutMs opts = t)
            \<and> (requestTimeoutMs opts = Some t \<and> \<not> truthy t \<longrightarrow> timeoutMs opts = Finite 30000)"
    by (simp add: timeoutMs_cases)
  show ?thesis
    unfolding t [symmetric] s [symmetric]
    using c1 c2 c3 a1 a2 a3 tm createMessage_rejected [of env h cl h' d sp ms e]
      createMessage_refused [of env h e d sp ms]
    by blast
qed

text \<open>
  An upstream timeout with no timeout configured and with 1500 milliseconds configured; an
  error with the status 500; an error whose status is \<open>0\<close> and whose \<^verbatim>\<open>statusCode\<close> is 500;
  an error with neither message nor status; a request rejected with the status 500; and a
  client whose construction fails with \<^verbatim>\<open>connect timed out\<close>.
\<close>

theorem C7_classify_witness:
  "classify unset (new_Error ''upstream request timed out'')
   = ([], new_Error ''Ollama request timed out after 30 seconds'')
   \<and> classify (unset\<lparr>requestTimeoutMs := Some (Finite 1500)\<rparr>)
       (new_Error ''upstream request timed out'')
     = ([], new_Error ''Ollama request timed out after 1.5 seconds'')
   \<and> classify unset \<lparr>error_message = Some ''model not found'', status = Some (Finite 500),
                      statusCode = None\<rparr>
     = ([console_error ''Ollama API error (500): model not found'' None],
        \<lparr>error_message = Some ''model not found'', status = Some (Finite 500),
         statusCode = None\<rparr>)
   \<and> classify unset \<lparr>error_message = Some ''model not found'', status = Some (Finite 0),
                      statusCode = Some (Finite 500)\<rparr>
     = ([console_error ''Ollama API error (500): model not found'' None],
        \<lparr>error_message = Some ''model not found'', status = Some (Finite 0),
         statusCode = Some (Finite 500)\<rparr>)
   \<and> classify unset \<lparr>error_message = None, status = None, statusCode = None\<rparr>
     = ([console_error ''Ollama API error (unknown): Unknown error'' None],
        \<lparr>error_message = None, status = None, statusCode = None\<rparr>)
   \<and> fst (createMessage
            (scripted (Rejected \<lparr>error_message = Some ''model not found'',
                                  status = Some (Finite 500), statusCode = None\<rparr>))
            wide_defaults (new_OllamaHandler unset) ''Hi'' [])
     = \<lparr>events = [],
        console = [console_error ''Ollama API error (500): model not found'' None],
        ending = Threw \<lparr>error_message = Some ''model not found'',
                        status = Some (Finite 500), statusCode = None\<rparr>\<rparr>
   \<and> fst (createMessage (refusing (new_Error ''connect timed out'')) wide_defaults
            (new_OllamaHandler unset) ''Hi'' [])
     = \<lparr>events = [], console = [],
        ending = Threw (new_Error ''Error creating Ollama client: connect timed out'')\<rparr>"
proof -
  let ?t = "new_Error ''upstream request timed out''"
  let ?e = "\<lparr>error_message = Some ''model not found'', status = Some (Finite 500),
             statusCode = None\<rparr>"
  let ?f = "\<lparr>error_message = Some ''model not found'', status = Some (Finite 0),
             statusCode = Some (Finite 500)\<rparr>"
  let ?u = "\<lparr>error_message = None, status = None, statusCode = None\<rparr>"
  let ?late = "unset\<lparr>requestTimeoutMs := Some (Finite 1500)\<rparr>"
  let ?h = "new_OllamaHandler unset :: unit OllamaHandler"
  let ?h' = "\<lparr>options = unset, client = Some ()\<rparr>"
  let ?rej = "scripted (Rejected ?e)"
  let ?ref = "refusing (new_Error ''connect timed out'')"
  let ?r = "new_Error ''Error creating Ollama client: connect timed out''"
  note timed = C7_classify [of ?t "''upstream request timed out''" unset "Finite 0" "Finite 0"
      "Finite 0" "[]" ?rej ?h "()" ?h' wide_defaults "''Hi''" "[]"]
  note late = C7_classify [of ?t "''upstream request timed out''" ?late "Finite 1500"
      "Finite 0" "Finite 0" "[]" ?rej ?h "()" ?h' wide_defaults "''Hi''" "[]"]
  note other = C7_classify [of ?e "''model not found''" unset "Finite 0" "Finite 500"
      "Finite 0" "[]" ?rej ?h "()" ?h' wide_defaults "''Hi''" "[]"]
  note fallback = C7_classify [of ?f "''model not found''" unset "Finite 0" "Finite 0"
      "Finite 500" "[]" ?rej ?h "()" ?h' wide_defaults "''Hi''" "[]"]
  note plain = C7_classify [of ?u "[]" unset "Finite 0" "Finite 0" "Finite 0" "[]" ?rej ?h "()"
      ?h' wide_defaults "''Hi''" "[]"]
  note refused = C7_classify [of ?r "[]" unset "Finite 0" "Finite 0" "Finite 0" "[]" ?ref ?h
      "()" ?h' wide_defaults "''Hi''" "[]"]
  have i: "String_includes ''upstream request timed out'' ''timed out''"
    by (simp add: String_includes_def sublist_Cons_right)
  have n: "\<not> String_includes ''model not found'' ''timed out''"
    by (simp add: String_includes_def sublist_Cons_right)
  have em: "error_message ?t = Some ''upstream request timed out''"
    by (simp add: new_Error_def)
  have t30: "timeoutMs unset = Finite 30000"
    by (rule timed [THEN conjunct2, THEN conjunct1, rule_format]) (simp add: unset_def)
  have t15: "timeoutMs ?late = Finite 1500"
    by (rule late [THEN conjunct2, THEN conjunct2, THEN conjunct1, rule_format]) simp
  from timed [THEN conjunct1] em i timeout_message_30000
  have a: "classify unset ?t = ([], new_Error ''Ollama request timed out after 30 seconds'')"
    by (simp add: t30 timeout_message_def new_Error_def)
  from late [THEN conjunct1] em i timeout_message_1500
  have b: "classify ?late ?t = ([], new_Error ''Ollama request timed out after 1.5 seconds'')"
    by (simp add: t15 timeout_message_def new_Error_def)
  have c: "classify unset ?e
           = ([console_error ''Ollama API error (500): model not found'' None], ?e)"
    using other [THEN conjunct2, THEN conjunct2, THEN conjunct2, THEN conjunct2, THEN conjunct1] other [THEN conjunct2, THEN conjunct2, THEN conjunct2, THEN conjunct2, THEN conjunct2, THEN conjunct1] n by (simp add: ToString_500)
  have d: "classify unset ?f
           = ([console_error ''Ollama API error (500): model not found'' None], ?f)"
    using fallback [THEN conjunct2, THEN conjunct2, THEN conjunct2, THEN conjunct2, THEN conjunct1] fallback [THEN conjunct2, THEN conjunct2, THEN conjunct2, THEN conjunct2, THEN conjunct2, THEN conjunct2, THEN conjunct1] n by (simp add: ToString_500)
  have e: "classify unset ?u
           = ([console_error ''Ollama API error (unknown): Unknown error'' None], ?u)"
    using plain [THEN conjunct2, THEN conjunct2, THEN conjunct2, THEN conjunct2, THEN conjunct1] plain [THEN conjunct2, THEN conjunct2, THEN conjunct2, THEN conjunct2, THEN conjunct2, THEN conjunct2, THEN conjunct2, THEN conjunct1] by simp
  have "ensureClient ?rej ?h = Inr ((), ?h')"
    by (rule ensureClient_scripted)
  moreover have "chat ?rej () rq = Rejected ?e" for rq
    by (simp add: scripted_def)
  ultimately have "fst (createMessage ?rej wide_defaults ?h ''Hi'' [])
     = \<lparr>events = [], console = fst (classify (options ?h) ?e),
        ending = Threw (snd (classify (options ?h) ?e))\<rparr>"
    by (intro other [THEN conjunct2, THEN conjunct2, THEN conjunct2, THEN conjunct2, THEN conjunct2, THEN conjunct2, THEN conjunct2, THEN conjunct2, THEN conjunct2, THEN conjunct1, rule_format] conjI)
  then have f: "fst (createMessage ?rej wide_defaults ?h ''Hi'' [])
     = \<lparr>events = [],
        console = [console_error ''Ollama API error (500): model not found'' None],
        ending = Threw ?e\<rparr>"
    by (simp add: new_OllamaHandler_def c)
  have "ensureClient ?ref ?h = Inl ?r"
    by (simp add: ensureClient_refusing new_Error_def)
  then have g: "fst (createMessage ?ref wide_defaults ?h ''Hi'' [])
     = \<lparr>events = [], console = [], ending = Threw ?r\<rparr>"
    by (rule refused [THEN conjunct2, THEN conjunct2, THEN conjunct2, THEN conjunct2, THEN conjunct2, THEN conjunct2, THEN conjunct2, THEN conjunct2, THEN conjunct2, THEN conjunct2, rule_format])
  show ?thesis
    by (intro conjI a b c d e f g)
qed

subsection \<open>The context window\<close>

text \<open>
  C2, as the specification states it, gives 32768 whenever the override is absent. With no
  override \<open>getModel\<close> returns the table of defaults untouched (line 115): the context
  window is the table's, and the 32768 of line 114 plays no part. For a table whose
  context window is 128000 the result is 128000.
\<close>

theorem C2_absent_override_counterexample:
  "ollamaApiOptionsCtxNum unset = None
   \<and> contextWindow (info (getModel wide_defaults unset)) = Finite 128000
   \<and> contextWindow (info (getModel wide_defaults unset)) \<noteq> Finite 32768"
  by (simp add: getModel_def unset_def wide_defaults_def)

text \<open>
  C2, as the handler has it. With the override \<^verbatim>\<open>"8192"\<close> the context window is 8192.
  With a non-empty override that \<^verbatim>\<open>Number\<close> maps to \<^verbatim>\<open>NaN\<close> or to \<open>0\<close> (a text that is not a
  number, a blank string) it is 32768; with a non-empty override that \<^verbatim>\<open>Number\<close> maps to
  any other number it is that number. With no override, or the empty string, the metadata
  is the table of defaults itself.
\<close>

theorem C2_context_window:
  "(ollamaApiOptionsCtxNum opts = Some ''8192'' \<longrightarrow>
      contextWindow (info (getModel d opts)) = Finite 8192)
   \<and> (ollamaApiOptionsCtxNum opts = Some s \<and> s \<noteq> [] \<and> \<not> truthy (StringToNumber s) \<longrightarrow>
        contextWindow (info (getModel d opts)) = Finite 32768)
   \<and> (ollamaApiOptionsCtxNum opts = Some s \<and> s \<noteq> [] \<and> truthy (StringToNumber s) \<longrightarrow>
        contextWindow (info (getModel d opts)) = StringToNumber s)
   \<and> (ollamaApiOptionsCtxNum opts = None \<or> ollamaApiOptionsCtxNum opts = Some [] \<longrightarrow>
        info (getModel d opts) = d)"
proof -
  have "contextWindow (info (getModel d opts)) = Finite 8192"
    if "ollamaApiOptionsCtxNum opts = Some ''8192''"
    using that Number_8192 by (simp add: getModel_def number_or_def)
  moreover have "contextWindow (info (getModel d opts))
                 = (if truthy (StringToNumber s) then StringToNumber s else Finite 32768)"
    if "ollamaApiOptionsCtxNum opts = Some s" and "s \<noteq> []"
    using that by (simp add: getModel_def number_or_def Number_def)
  moreover have "info (getModel d opts) = d"
    if "ollamaApiOptionsCtxNum opts = None \<or> ollamaApiOptionsCtxNum opts = Some []"
    using that by (auto simp: getModel_def)
  ultimately show ?thesis
    by simp
qed

text \<open>The overrides \<^verbatim>\<open>"8192"\<close>, \<^verbatim>\<open>"abc"\<close>, \<^verbatim>\<open>" "\<close>, none and \<^verbatim>\<open>""\<close>.\<close>

theorem C2_context_window_witness:
  "contextWindow (info (getModel wide_defaults (unset\<lparr>ollamaApiOptionsCtxNum := Some ''8192''\<rparr>)))
   = Finite 8192
   \<and> contextWindow (info (getModel wide_defaults (unset\<lparr>ollamaApiOptionsCtxNum := Some ''abc''\<rparr>)))
     = Finite 32768
   \<and> contextWindow (info (getModel wide_defaults (unset\<lparr>ollamaApiOptionsCtxNum := Some '' ''\<rparr>)))
     = Finite 32768
   \<and> info (getModel wide_defaults unset) = wide_defaults
   \<and> info (getModel wide_defaults (unset\<lparr>ollamaApiOptionsCtxNum := Some []\<rparr>)) = wide_defaults"
proof -
  let ?o = "\<lambda>x. unset\<lparr>ollamaApiOptionsCtxNum := x\<rparr>"
  have abc: "StringToNumber ''abc'' = NaN" and blank: "StringToNumber '' '' = Finite 0"
    and n: "StringToNumber ''8192'' = Finite 8192"
    using Number_abc Number_blank Number_8192 by (simp_all add: Number_def)
  have a: "contextWindow (info (getModel wide_defaults (?o (Some ''8192'')))) = Finite 8192"
    using C2_context_window [of "?o (Some ''8192'')" wide_defaults "''8192''"] by simp
  have b: "contextWindow (info (getModel wide_defaults (?o (Some ''abc'')))) = Finite 32768"
    using C2_context_window [of "?o (Some ''abc'')" wide_defaults "''abc''"] abc by simp
  have c: "contextWindow (info (getModel wide_defaults (?o (Some '' '')))) = Finite 32768"
    using C2_context_window [of "?o (Some '' '')" wide_defaults "'' ''"] blank by simp
  have d: "info (getModel wide_defaults unset) = wide_defaults"
    using C2_context_window [of unset wide_defaults "[]"] by (simp add: unset_def)
  have e: "info (getModel wide_defaults (?o (Some []))) = wide_defaults"
    using C2_context_window [of "?o (Some [])" wide_defaults "[]"] by simp
  show ?thesis
    using a b c d e by simp
qed

text \<open>
  C6, as the specification states it, makes the context size of the request equal to the
  context window of \<open>getModel\<close> for every configuration. With no override the request
  carries 32768 (line 65) and \<open>getModel\<close> returns the table's context window (line 115).
\<close>

theorem C6_absent_override_counterexample:
  "num_ctx (chat_request wide_defaults unset []) = Finite 32768
   \<and> contextWindow (info (getModel wide_defaults unset)) = Finite 128000
   \<and> num_ctx (chat_request wide_defaults unset [])
     \<noteq> contextWindow (info (getModel wide_defaults unset))"
  by (simp add: chat_request_def getModel_def unset_def wide_defaults_def Number_None
      number_or_def)

text \<open>
  C6, as the handler has it. The context size of the request is
  \<^verbatim>\<open>Number(override) || 32768\<close>: the number read from the override, and 32768 when that is
  \<^verbatim>\<open>NaN\<close> or \<open>0\<close>, which includes an absent override. It equals the context window of
  \<open>getModel\<close> whenever the override is a non-empty string. With no override, or the empty
  string, the request carries 32768 and \<open>getModel\<close> the context window of the table.
\<close>

theorem C6_num_ctx:
  "num_ctx (chat_request d opts ms)
   = (if truthy (Number (ollamaApiOptionsCtxNum opts)) then Number (ollamaApiOptionsCtxNum opts)
      else Finite 32768)
   \<and> (ollamaApiOptionsCtxNum opts = Some s \<and> s \<noteq> [] \<longrightarrow>
        num_ctx (chat_request d opts ms) = contextWindow (info (getModel d opts)))
   \<and> (ollamaApiOptionsCtxNum opts = None \<or> ollamaApiOptionsCtxNum opts = Some [] \<longrightarrow>
        num_ctx (chat_request d opts ms) = Finite 32768
        \<and> contextWindow (info (getModel d opts)) = contextWindow d)"
  by (auto simp: chat_request_def getModel_def number_or_def Number_None Number_empty)

text \<open>The overrides \<^verbatim>\<open>"8192"\<close> and \<^verbatim>\<open>"abc"\<close>, and no override.\<close>

theorem C6_num_ctx_witness:
  "num_ctx (chat_request wide_defaults (unset\<lparr>ollamaApiOptionsCtxNum := Some ''8192''\<rparr>) [])
   = Finite 8192
   \<and> contextWindow (info (getModel wide_defaults (unset\<lparr>ollamaApiOptionsCtxNum := Some ''8192''\<rparr>)))
     = Finite 8192
   \<and> num_ctx (chat_request wide_defaults (unset\<lparr>ollamaApiOptionsCtxNum := Some ''abc''\<rparr>) [])
     = contextWindow (info (getModel wide_defaults (unset\<lparr>ollamaApiOptionsCtxNum := Some ''abc''\<rparr>)))
   \<and> num_ctx (chat_request wide_defaults unset []) = Finite 32768"
proof -
  let ?n = "unset\<lparr>ollamaApiOptionsCtxNum := Some ''8192''\<rparr>"
  let ?abc = "unset\<lparr>ollamaApiOptionsCtxNum := Some ''abc''\<rparr>"
  note n = C6_num_ctx [of wide_defaults ?n "[]" "''8192''"]
  note abc = C6_num_ctx [of wide_defaults ?abc "[]" "''abc''"]
  note absent = C6_num_ctx [of wide_defaults unset "[]" "[]"]
  have sel: "ollamaApiOptionsCtxNum ?n = Some ''8192''"
    "ollamaApiOptionsCtxNum ?abc = Some ''abc''" "ollamaApiOptionsCtxNum unset = None"
    by (simp_all add: unset_def)
  have a: "num_ctx (chat_request wide_defaults ?n []) = Finite 8192"
    by (simp only: n [THEN conjunct1] sel Number_8192 truthy.simps) simp
  have "num_ctx (chat_request wide_defaults ?n []) = contextWindow (info (getModel wide_defaults ?n))"
    by (rule n [THEN conjunct2, THEN conjunct1, rule_format]) (simp add: sel)
  with a have b: "contextWindow (info (getModel wide_defaults ?n)) = Finite 8192"
    by simp
  have c: "num_ctx (chat_request wide_defaults ?abc [])
           = contextWindow (info (getModel wide_defaults ?abc))"
    by (rule abc [THEN conjunct2, THEN conjunct1, rule_format]) (simp add: sel)
  have "num_ctx (chat_request wide_defaults unset []) = Finite 32768
        \<and> contextWindow (info (getModel wide_defaults unset)) = contextWindow wide_defaults"
    by (rule absent [THEN conjunct2, THEN conjunct2, rule_format]) (simp add: sel)
  then have d: "num_ctx (chat_request wide_defaults unset []) = Finite 32768"
    by (rule conjunct1)
  show ?thesis
    using a b c d by blast
qed

subsection \<open>Falsy options\<close>

text \<open>
  C10. Replacing every falsy option by an absent one changes nothing: the client options,
  the model, the timeout, the request and the whole run of \<open>createMessage\<close> are the same.
  In particular a timeout of \<open>0\<close> gives 30000 milliseconds and a message that reports 30
  seconds, an empty base address gives \<^verbatim>\<open>http://localhost:11434\<close>, an empty model id gives
  the id \<^verbatim>\<open>""\<close>, and an empty override gives the table of defaults.
\<close>

theorem C10_falsy_as_absent:
  "make_clientOptions (absent_if_falsy opts) = make_clientOptions opts
   \<and> getModel d (absent_if_falsy opts) = getModel d opts
   \<and> timeoutMs (absent_if_falsy opts) = timeoutMs opts
   \<and> chat_request d (absent_if_falsy opts) ms = chat_request d opts ms
   \<and> fst (createMessage env d (h\<lparr>options := absent_if_falsy (options h)\<rparr>) sp msgs)
     = fst (createMessage env d h sp msgs)
   \<and> (requestTimeoutMs opts = Some (Finite 0) \<longrightarrow>
        timeoutMs opts = Finite 30000
        \<and> race opts Unsettled = Inl (new_Error ''Ollama request timed out after 30 seconds''))
   \<and> (ollamaBaseUrl opts = Some [] \<longrightarrow>
        host (make_clientOptions opts) = ''http://localhost:11434'')
   \<and> (ollamaModelId opts = Some [] \<longrightarrow> model_id (getModel d opts) = [])
   \<and> (ollamaApiOptionsCtxNum opts = Some [] \<longrightarrow> info (getModel d opts) = d)"
proof -
  have "timeoutMs opts = Finite 30000
        \<and> race opts Unsettled = Inl (new_Error ''Ollama request timed out after 30 seconds'')"
    if "requestTimeoutMs opts = Some (Finite 0)"
    using that by (simp add: timeoutMs_cases race_def timeout_message_30000)
  moreover have "host (make_clientOptions opts) = ''http://localhost:11434''"
    if "ollamaBaseUrl opts = Some []"
    using that by (simp add: make_clientOptions_def string_or_def)
  moreover have "model_id (getModel d opts) = []" if "ollamaModelId opts = Some []"
    using that by (simp add: getModel_def string_or_def)
  moreover have "info (getModel d opts) = d" if "ollamaApiOptionsCtxNum opts = Some []"
    using that by (simp add: getModel_def)
  ultimately show ?thesis
    by (simp add: make_clientOptions_absent_if_falsy getModel_absent_if_falsy
        timeoutMs_absent_if_falsy chat_request_absent_if_falsy createMessage_absent_if_falsy)
qed

text \<open>The options in which every field is set and falsy.\<close>

theorem C10_falsy_as_absent_witness:
  "absent_if_falsy \<lparr>ollamaBaseUrl = Some [], ollamaApiKey = Some [], ollamaModelId = Some [],
                    ollamaApiOptionsCtxNum = Some [], requestTimeoutMs = Some (Finite 0)\<rparr>
   = unset
   \<and> timeoutMs \<lparr>ollamaBaseUrl = Some [], ollamaApiKey = Some [], ollamaModelId = Some [],
                ollamaApiOptionsCtxNum = Some [], requestTimeoutMs = Some (Finite 0)\<rparr>
     = Finite 30000
   \<and> race \<lparr>ollamaBaseUrl = Some [], ollamaApiKey = Some [], ollamaModelId = Some [],
           ollamaApiOptionsCtxNum = Some [], requestTimeoutMs = Some (Finite 0)\<rparr> Unsettled
     = Inl (new_Error ''Ollama request timed out after 30 seconds'')
   \<and> make_clientOptions \<lparr>ollamaBaseUrl = Some [], ollamaApiKey = Some [],
                         ollamaModelId = Some [], ollamaApiOptionsCtxNum = Some [],
                         requestTimeoutMs = Some (Finite 0)\<rparr>
     = \<lparr>host = ''http://localhost:11434'', headers = None\<rparr>
   \<and> getModel wide_defaults \<lparr>ollamaBaseUrl = Some [], ollamaApiKey = Some [],
                             ollamaModelId = Some [], ollamaApiOptionsCtxNum = Some [],
                             requestTimeoutMs = Some (Finite 0)\<rparr>
     = \<lparr>model_id = [], info = wide_defaults\<rparr>"
proof -
  let ?f = "\<lparr>ollamaBaseUrl = Some [], ollamaApiKey = Some [], ollamaModelId = Some [],
            ollamaApiOptionsCtxNum = Some [], requestTimeoutMs = Some (Finite 0)\<rparr>"
  let ?h = "new_OllamaHandler ?f :: unit OllamaHandler"
  note f = C10_falsy_as_absent [of ?f wide_defaults "[]" "scripted Unsettled" ?h "[]" "[]"]
  have n: "absent_if_falsy ?f = unset"
    by (simp add: absent_if_falsy_def absent_if_empty_def unset_def)
  have a: "timeoutMs ?f = Finite 30000"
    and b: "race ?f Unsettled = Inl (new_Error ''Ollama request timed out after 30 seconds'')"
    using f by simp_all
  have "make_clientOptions ?f = make_clientOptions unset"
    using f n by simp
  then have c: "make_clientOptions ?f = \<lparr>host = ''http://localhost:11434'', headers = None\<rparr>"
    by (simp add: make_clientOptions_def unset_def string_or_def)
  have "getModel wide_defaults ?f = getModel wide_defaults unset"
    using f n by simp
  then have d: "getModel wide_defaults ?f = \<lparr>model_id = [], info = wide_defaults\<rparr>"
    by (simp add: getModel_def unset_def string_or_def)
  show ?thesis
    using n a b c d by simp
qed

end
